theory Spec2Isabelle
  imports Main "HOL-Library.Sublist" "HOL-Library.Multiset"
begin

section \<open>JavaScript strings and values\<close>

text \<open>
  Strings are \<open>string\<close> (lists of 8-bit characters). \<open>toLowerCase\<close> maps the
  letters A to Z to a to z and leaves every other character alone; no character outside
  A to Z lower-cases to an ASCII letter or digit that the comparisons below look for.
\<close>

definition toLowerChar :: "char \<Rightarrow> char" where
  "toLowerChar c =
     (let n = (of_char c :: nat) in if 65 \<le> n \<and> n \<le> 90 then char_of (n + 32) else c)"

definition toLowerCase :: "string \<Rightarrow> string" where
  "toLowerCase s = map toLowerChar s"

text \<open>\<open>s.includes(sub)\<close>: \<open>sub\<close> occurs in \<open>s\<close> as a contiguous substring.\<close>

fun str_includes :: "string \<Rightarrow> string \<Rightarrow> bool" where
  "str_includes [] sub = (sub = [])"
| "str_includes (c # cs) sub = (prefix sub (c # cs) \<or> str_includes cs sub)"

text \<open>
  An optional field (\<open>x?: T\<close>) is an \<open>option\<close>. JavaScript tests such a field by its
  truthiness: \<open>undefined\<close>, the empty string and the number 0 are all falsy.
\<close>

definition truthy_str :: "string option \<Rightarrow> bool" where
  "truthy_str x = (case x of None \<Rightarrow> False | Some s \<Rightarrow> s \<noteq> [])"

definition truthy_num :: "int option \<Rightarrow> bool" where
  "truthy_num x = (case x of None \<Rightarrow> False | Some n \<Rightarrow> n \<noteq> 0)"

section \<open>TLS grading (ssl-analyzer)\<close>

text \<open>
  A certificate's distinguished-name field, as \<open>formatCertificateField\<close> reads it: absent,
  a plain string, or an object with optional CN, O, OU and C members; \<open>dn_json\<close> stands for
  \<open>JSON.stringify\<close> of the object.
\<close>

datatype cert_field =
    FieldAbsent
  | FieldString string
  | FieldObject (dn_CN: "string option") (dn_O: "string option") (dn_OU: "string option")
      (dn_C: "string option") (dn_json: string)

text \<open>
  \<open>valid_to\<close> holds the time value of \<open>new Date(certInfo.valid_to)\<close>, in milliseconds
  since the epoch; \<open>now\<close> below is the time value of \<open>new Date()\<close>. Time values are
  integers: a \<open>valid_to\<close> string that \<open>Date\<close> cannot parse, whose time value is NaN, is
  outside the model. \<open>bits\<close> is optional in the source (\<open>bits?: number\<close>).
\<close>

record CertificateInfo =
  subject :: cert_field
  issuer :: cert_field
  valid_to :: int
  sigalg :: string
  bits :: "int option"

record SslConfig =
  supportedProtocols :: "string list"
  supportedCiphers :: "string list"

record SSLLabsGrade =
  grade :: string
  score :: int
  vulnerabilities :: "string list"

text \<open>
  \<open>Math.ceil((expiryDate.getTime() - now.getTime()) / (1000 * 60 * 60 * 24))\<close>, as the
  exact ceiling of the quotient of the two integer time values. The code computes it in
  double precision, which gives the same number as long as the two times are less than
  \<open>2^53\<close> milliseconds apart (some 285000 years); beyond that the difference is rounded
  and the day count of the code can differ by one from the exact ceiling, which this
  definition does not follow. The comparison of the day count with 30 is the same in
  both.
\<close>

definition daysUntilExpiry :: "int \<Rightarrow> int \<Rightarrow> int" where
  "daysUntilExpiry expiryDate now = - ((- (expiryDate - now)) div (1000 * 60 * 60 * 24))"

text \<open>
  The body of each deduction, \<open>score -= n; vulnerabilities.push(msg)\<close>, acting on the
  two local variables \<open>(score, vulnerabilities)\<close>.
\<close>

definition penalise :: "int \<Rightarrow> string \<Rightarrow> int \<times> string list \<Rightarrow> int \<times> string list" where
  "penalise n msg st = (fst st - n, snd st @ [msg])"

definition calculateSslGrade :: "int \<Rightarrow> CertificateInfo \<Rightarrow> SslConfig \<Rightarrow> SSLLabsGrade" where
  "calculateSslGrade now certInfo sslConfig =
    (let st0 = (100, []);
         expiryDate = valid_to certInfo;
         st1 =
           (if expiryDate \<le> now then penalise 50 ''Certificate has expired'' st0
            else if daysUntilExpiry expiryDate now < 30
              then penalise 20 ''Certificate expires soon (less than 30 days)'' st0
              else st0);
         st2 =
           (if truthy_num (bits certInfo) \<and> the (bits certInfo) < 2048
              then penalise 30 ''Weak key size (less than 2048 bits)'' st1 else st1);
         st3 =
           (if sigalg certInfo \<noteq> [] \<and> str_includes (toLowerCase (sigalg certInfo)) ''sha1''
              then penalise 20 ''Weak signature algorithm (SHA-1)'' st2 else st2);
         st4 =
           (if ''TLSv1'' \<in> set (supportedProtocols sslConfig)
               \<or> ''TLSv1.1'' \<in> set (supportedProtocols sslConfig)
              then penalise 15 ''Supports deprecated TLS versions'' st3 else st3);
         st5 =
           (if ''TLSv1.3'' \<notin> set (supportedProtocols sslConfig)
              then penalise 10 ''TLS 1.3 not supported'' st4 else st4);
         score = fst st5;
         grade =
           (if score \<ge> 95 then ''A+''
            else if score \<ge> 90 then ''A''
            else if score \<ge> 80 then ''B''
            else if score \<ge> 70 then ''C''
            else if score \<ge> 60 then ''D''
            else ''F'')
     in \<lparr>grade = grade, score = max 0 score, vulnerabilities = snd st5\<rparr>)"

text \<open>The key size the posture records: \<open>keySize: certInfo.bits || null\<close>.\<close>

definition keySize :: "CertificateInfo \<Rightarrow> int option" where
  "keySize certInfo = (if truthy_num (bits certInfo) then bits certInfo else None)"

text \<open>
  The words of the specification for the 20-point deduction, "expires in fewer than 30
  days", read on the two time values: the certificate has not expired and less than 30
  times 24 hours are left. It is compared with the condition of the code below.
\<close>

definition spec_expiresInFewerThan30Days :: "int \<Rightarrow> CertificateInfo \<Rightarrow> bool" where
  "spec_expiresInFewerThan30Days now certInfo =
     (now < valid_to certInfo \<and> valid_to certInfo - now < 30 * (1000 * 60 * 60 * 24))"

section \<open>Header scoring (security-headers-analyzer)\<close>

text \<open>
  The parsed header analysis. The sub-objects \<open>hsts\<close> and \<open>csp\<close> are optional
  (\<open>analysis.hsts?.present\<close>), and so are their members other than \<open>present\<close> and
  \<open>directives\<close>; a header that is stored verbatim is an optional string.
\<close>

record Hsts =
  hsts_present :: bool
  hsts_maxAge :: "int option"
  hsts_includeSubDomains :: "bool option"
  hsts_preload :: "bool option"
  hsts_value :: "string option"

record Csp =
  csp_present :: bool
  csp_directives :: "string list"
  csp_value :: "string option"
  csp_hasUnsafeInline :: "bool option"
  csp_hasUnsafeEval :: "bool option"

record ExpectCT =
  ect_present :: bool
  ect_maxAge :: "int option"
  ect_enforce :: "bool option"
  ect_reportUri :: "string option"
  ect_value :: "string option"

record SecurityHeadersAnalysis =
  hsts :: "Hsts option"
  csp :: "Csp option"
  xFrameOptions :: "string option"
  xContentTypeOptions :: "string option"
  xXSSProtection :: "string option"
  referrerPolicy :: "string option"
  permissionsPolicy :: "string option"
  expectCT :: "ExpectCT option"
  crossOriginEmbedderPolicy :: "string option"
  crossOriginOpenerPolicy :: "string option"
  crossOriginResourcePolicy :: "string option"

text \<open>Truthiness of an optional boolean member, and \<open>analysis.hsts?.present\<close>.\<close>

definition truthy_bool :: "bool option \<Rightarrow> bool" where
  "truthy_bool x = (case x of None \<Rightarrow> False | Some b \<Rightarrow> b)"

definition hstsPresent :: "SecurityHeadersAnalysis \<Rightarrow> bool" where
  "hstsPresent analysis = (case hsts analysis of None \<Rightarrow> False | Some h \<Rightarrow> hsts_present h)"

definition cspPresent :: "SecurityHeadersAnalysis \<Rightarrow> bool" where
  "cspPresent analysis = (case csp analysis of None \<Rightarrow> False | Some p \<Rightarrow> csp_present p)"

text \<open>
  \<open>calculateSecurityScore\<close> returns the pair \<open>{ score, grade }\<close>. Each \<open>score\<close>\<open>i\<close>
  is the variable \<open>score\<close> after one block of the function.
\<close>

definition calculateSecurityScore :: "SecurityHeadersAnalysis \<Rightarrow> int \<times> string" where
  "calculateSecurityScore analysis =
    (let score0 = (100 :: int);
         score1 =
           (if \<not> hstsPresent analysis then score0 - 20
            else
              (let h = the (hsts analysis);
                   a = (if \<not> truthy_num (hsts_maxAge h) \<or> the (hsts_maxAge h) < 31536000
                        then score0 - 5 else score0);
                   b = (if \<not> truthy_bool (hsts_includeSubDomains h) then a - 3 else a)
               in if \<not> truthy_bool (hsts_preload h) then b - 2 else b));
         score2 =
           (if \<not> cspPresent analysis then score1 - 25
            else
              (let p = the (csp analysis);
                   a = (if truthy_bool (csp_hasUnsafeInline p) then score1 - 8 else score1);
                   b = (if truthy_bool (csp_hasUnsafeEval p) then a - 7 else a)
               in if length (csp_directives p) < 3 then b - 5 else b));
         score3 =
           (if \<not> truthy_str (xFrameOptions analysis) then score2 - 15
            else if toLowerCase (the (xFrameOptions analysis)) = ''allowall'' then score2 - 10
            else score2);
         score4 =
           (if \<not> truthy_str (xContentTypeOptions analysis)
               \<or> toLowerCase (the (xContentTypeOptions analysis)) \<noteq> ''nosniff''
            then score3 - 10 else score3);
         score5 =
           (if \<not> truthy_str (xXSSProtection analysis) then score4 - 10
            else if the (xXSSProtection analysis) = ''0'' then score4 - 5
            else score4);
         score6 =
           (if \<not> truthy_str (referrerPolicy analysis) then score5 - 8
            else
              (let weakPolicies = [''unsafe-url'', ''no-referrer-when-downgrade'']
               in if toLowerCase (the (referrerPolicy analysis)) \<in> set weakPolicies
                  then score5 - 4 else score5));
         score7 = (if \<not> truthy_str (crossOriginEmbedderPolicy analysis) then score6 - 4 else score6);
         score8 = (if \<not> truthy_str (crossOriginOpenerPolicy analysis) then score7 - 4 else score7);
         score9 = (if \<not> truthy_str (crossOriginResourcePolicy analysis) then score8 - 4 else score8);
         score = max 0 score9;
         grade =
           (if score \<ge> 95 then ''A+''
            else if score \<ge> 85 then ''A''
            else if score \<ge> 75 then ''B''
            else if score \<ge> 65 then ''C''
            else if score \<ge> 50 then ''D''
            else ''F'')
     in (score, grade))"

text \<open>
  \<open>identifyIssues\<close> returns \<open>{ missingHeaders, weakHeaders }\<close>. Each \<open>if (c) list.push(x)\<close>
  appends \<open>x\<close> when \<open>c\<close> holds; \<open>analysis.xFrameOptions === 'ALLOWALL'\<close> and
  \<open>analysis.xXSSProtection === '0'\<close> are strict comparisons of the stored value. A string
  that ends in a single quote is written with its last character, \<open>CHR 0x27\<close>, appended.
\<close>

definition pushIf :: "bool \<Rightarrow> string \<Rightarrow> string list \<Rightarrow> string list" where
  "pushIf c x xs = (if c then xs @ [x] else xs)"

record HeaderIssues =
  missingHeaders :: "string list"
  weakHeaders :: "string list"

definition identifyIssues :: "SecurityHeadersAnalysis \<Rightarrow> HeaderIssues" where
  "identifyIssues analysis =
    (let m0 = [];
         m1 = pushIf (\<not> hstsPresent analysis) ''Strict-Transport-Security'' m0;
         m2 = pushIf (\<not> cspPresent analysis) ''Content-Security-Policy'' m1;
         m3 = pushIf (\<not> truthy_str (xFrameOptions analysis)) ''X-Frame-Options'' m2;
         m4 = pushIf (\<not> truthy_str (xContentTypeOptions analysis)) ''X-Content-Type-Options'' m3;
         m5 = pushIf (\<not> truthy_str (xXSSProtection analysis)) ''X-XSS-Protection'' m4;
         m6 = pushIf (\<not> truthy_str (referrerPolicy analysis)) ''Referrer-Policy'' m5;
         m7 = pushIf (\<not> truthy_str (crossOriginEmbedderPolicy analysis))
                ''Cross-Origin-Embedder-Policy'' m6;
         m8 = pushIf (\<not> truthy_str (crossOriginOpenerPolicy analysis))
                ''Cross-Origin-Opener-Policy'' m7;
         m9 = pushIf (\<not> truthy_str (crossOriginResourcePolicy analysis))
                ''Cross-Origin-Resource-Policy'' m8;
         w0 = [];
         w1 = pushIf (hstsPresent analysis
                  \<and> (\<not> truthy_num (hsts_maxAge (the (hsts analysis)))
                       \<or> the (hsts_maxAge (the (hsts analysis))) < 31536000))
                ''HSTS max-age is less than 1 year'' w0;
         w2 = (if cspPresent analysis
               then pushIf (truthy_bool (csp_hasUnsafeEval (the (csp analysis))))
                      (''CSP allows 'unsafe-eval'' @ [CHR 0x27])
                     (pushIf (truthy_bool (csp_hasUnsafeInline (the (csp analysis))))
                        (''CSP allows 'unsafe-inline'' @ [CHR 0x27]) w1)
               else w1);
         w3 = pushIf (xFrameOptions analysis = Some ''ALLOWALL'')
                ''X-Frame-Options set to ALLOWALL'' w2;
         w4 = pushIf (xXSSProtection analysis = Some ''0'') ''X-XSS-Protection disabled'' w3
     in \<lparr>missingHeaders = m9, weakHeaders = w4\<rparr>)"

section \<open>Port prober and vulnerability correlator (routes)\<close>

text \<open>The object a port probe resolves to; \<open>service\<close> is set for an open port only.\<close>

record PortResult =
  port :: int
  state :: string
  service :: "string option"
  protocol :: string

text \<open>\<open>services[port] || 'unknown'\<close>: a table lookup with a default.\<close>

definition services :: "(int \<times> string) list" where
  "services =
    [(21, ''ftp''), (22, ''ssh''), (23, ''telnet''), (25, ''smtp''), (53, ''dns''), (80, ''http''),
     (110, ''pop3''), (143, ''imap''), (443, ''https''), (993, ''imaps''), (995, ''pop3s''),
     (3389, ''rdp''), (5432, ''postgresql''), (3306, ''mysql''), (6379, ''redis''),
     (27017, ''mongodb'')]"

definition getServiceName :: "int \<Rightarrow> string" where
  "getServiceName p = (case map_of services p of Some s \<Rightarrow> s | None \<Rightarrow> ''unknown'')"

definition getRiskLevel :: "int \<Rightarrow> string \<Rightarrow> string" where
  "getRiskLevel p srv =
    (if p \<in> set [21, 23, 513, 514, 515, 79, 111] then ''high''
     else if p \<in> set [22, 3389, 5432, 3306, 6379, 27017] then ''medium''
     else if p \<in> set [80, 443] then ''low''
     else ''medium'')"

text \<open>
  \<open>scanPort\<close> returns a promise whose executor creates a fresh socket, sets its
  inactivity timer with \<open>socket.setTimeout(timeout)\<close>, registers three handlers and calls
  \<open>socket.connect(port, host)\<close>. A promise is pending until it is settled, and settling
  it again has no effect. The environment is the sequence of events the socket emits
  after \<open>socket.connect\<close>; the handlers run in that order. \<open>connectCalls\<close> counts the
  calls of \<open>socket.connect\<close>, \<open>timeoutMs\<close> is the value the timer was set to.

  Two calls in the executor throw before anything is emitted, and a throw in the executor
  rejects the promise: \<open>socket.setTimeout\<close> throws \<open>ERR_OUT_OF_RANGE\<close> at a negative
  number of milliseconds, before the handlers are registered and before
  \<open>socket.connect\<close> is reached; \<open>socket.connect\<close> throws \<open>ERR_SOCKET_BAD_PORT\<close> at a
  port that is not in the range 0 to 65535 (\<open>validPort\<close>).
\<close>

datatype 'a promise = Pending | Resolved 'a | Rejected string

definition resolve :: "'a \<Rightarrow> 'a promise \<Rightarrow> 'a promise" where
  "resolve v p = (case p of Pending \<Rightarrow> Resolved v | Resolved w \<Rightarrow> Resolved w | Rejected e \<Rightarrow> Rejected e)"

datatype socket_event = Connect | Timeout | SocketError

record probe =
  promise :: "PortResult promise"
  destroyed :: bool
  timeoutMs :: int
  connectCalls :: nat

definition onEvent :: "int \<Rightarrow> socket_event \<Rightarrow> probe \<Rightarrow> probe" where
  "onEvent p ev s =
    (case ev of
       Connect \<Rightarrow>
         s\<lparr>destroyed := True,
           promise := resolve \<lparr>port = p, state = ''open'', service = Some (getServiceName p),
                                protocol = ''tcp''\<rparr> (promise s)\<rparr>
     | Timeout \<Rightarrow>
         s\<lparr>destroyed := True,
           promise := resolve \<lparr>port = p, state = ''filtered'', service = None,
                                protocol = ''tcp''\<rparr> (promise s)\<rparr>
     | SocketError \<Rightarrow>
         s\<lparr>promise := resolve \<lparr>port = p, state = ''closed'', service = None,
                                protocol = ''tcp''\<rparr> (promise s)\<rparr>)"

definition validPort :: "int \<Rightarrow> bool" where
  "validPort p = (0 \<le> p \<and> p \<le> 65535)"

definition scanPort :: "string \<Rightarrow> int \<Rightarrow> int \<Rightarrow> socket_event list \<Rightarrow> probe" where
  "scanPort host p timeout events =
     (if timeout < 0 then
        \<lparr>promise = Rejected ''ERR_OUT_OF_RANGE'', destroyed = False, timeoutMs = 0,
         connectCalls = 0\<rparr>
      else if \<not> validPort p then
        \<lparr>promise = Rejected ''ERR_SOCKET_BAD_PORT'', destroyed = False, timeoutMs = timeout,
         connectCalls = 1\<rparr>
      else
        foldl (\<lambda>s ev. onEvent p ev s)
          \<lparr>promise = Pending, destroyed = False, timeoutMs = timeout, connectCalls = 1\<rparr>
          events)"



text \<open>Decimal digits of a number, for the template literal \<open>${result.port}\<close>.\<close>

fun digitsOf :: "nat \<Rightarrow> string" where
  "digitsOf n =
     (if n < 10 then [char_of (48 + n)] else digitsOf (n div 10) @ [char_of (48 + n mod 10)])"

definition numberToString :: "int \<Rightarrow> string" where
  "numberToString n = (if n < 0 then CHR ''-'' # digitsOf (nat (- n)) else digitsOf (nat n))"

record Vuln =
  title :: string
  description :: string
  severity :: string
  recommendation :: string

text \<open>The pushes of one iteration of the loop over \<open>scanResults\<close>, in source order.\<close>

definition vulnsOf :: "PortResult \<Rightarrow> Vuln list" where
  "vulnsOf result =
    (if state result = ''open'' then
       (if port result = 22 then
          [\<lparr>title = ''SSH Service Exposed'',
            description = ''SSH service is publicly accessible. Ensure strong authentication and consider restricting access.'',
            severity = ''medium'',
            recommendation = ''Use key-based authentication, disable root login, and consider IP whitelisting.''\<rparr>]
        else [])
       @ (if port result = 21 then
          [\<lparr>title = ''FTP Service Detected'',
            description = ''FTP service detected. FTP transmits credentials in plain text.'',
            severity = ''high'',
            recommendation = ''Replace FTP with SFTP or FTPS for secure file transfers.''\<rparr>]
        else [])
       @ (if port result = 23 then
          [\<lparr>title = ''Telnet Service Exposed'',
            description = ''Telnet service detected. Telnet transmits data in plain text.'',
            severity = ''high'',
            recommendation = ''Replace Telnet with SSH for secure remote access.''\<rparr>]
        else [])
       @ (if port result \<in> set [3306, 5432, 27017, 6379] then
          [\<lparr>title = ''Database Service Exposed'',
            description = ''Database service on port '' @ numberToString (port result)
                            @ '' is publicly accessible.'',
            severity = ''high'',
            recommendation = ''Restrict database access to trusted networks only and ensure strong authentication.''\<rparr>]
        else [])
     else [])"

fun analyzeLoop :: "Vuln list \<Rightarrow> PortResult list \<Rightarrow> Vuln list" where
  "analyzeLoop vulns [] = vulns"
| "analyzeLoop vulns (result # rest) = analyzeLoop (vulns @ vulnsOf result) rest"

definition analyzeVulnerabilities :: "PortResult list \<Rightarrow> Vuln list" where
  "analyzeVulnerabilities scanResults = analyzeLoop [] scanResults"

section \<open>Cloud provider detection (cloud-security-analyzer)\<close>

text \<open>
  The regular expressions of \<open>CLOUD_PROVIDERS\<close> have two shapes. \<open>/\.amazonaws\.com$/\<close> and
  \<open>/.*\.elasticbeanstalk\.com$/\<close> are not anchored at the start, so both hold exactly
  when the string ends with the literal text (\<open>EndsWith\<close>). The pattern
  \<open>/.*\.execute-api\..*\.amazonaws\.com$/\<close> holds when the first literal occurs somewhere
  and the string ends with the second one after it, with no line terminator in between
  (\<open>.\<close> does not match one): \<open>ContainsThenEndsWith\<close>.
\<close>

datatype pattern = EndsWith string | ContainsThenEndsWith string string

definition lineTerminator :: "char \<Rightarrow> bool" where
  "lineTerminator c = (c = CHR 0x0A \<or> c = CHR 0x0D)"

fun test :: "pattern \<Rightarrow> string \<Rightarrow> bool" where
  "test (EndsWith suf) s = suffix suf s"
| "test (ContainsThenEndsWith mid suf) s =
     list_ex (\<lambda>i. prefix mid (drop i s)
                \<and> (let rest = drop (i + length mid) s
                   in suffix suf rest
                      \<and> \<not> list_ex lineTerminator (take (length rest - length suf) rest)))
       [0..<Suc (length s)]"

definition CLOUD_PROVIDERS :: "(string \<times> pattern list) list" where
  "CLOUD_PROVIDERS =
    [(''aws'',
       [EndsWith ''.amazonaws.com'', EndsWith ''.aws.com'', EndsWith ''.elasticbeanstalk.com'',
        EndsWith ''.elb.amazonaws.com'', EndsWith ''.s3.amazonaws.com'',
        EndsWith ''.cloudfront.net'',
        ContainsThenEndsWith ''.execute-api.'' ''.amazonaws.com'']),
     (''azure'',
       [EndsWith ''.azure.com'', EndsWith ''.azurewebsites.net'', EndsWith ''.windows.net'',
        EndsWith ''.cloudapp.net'', EndsWith ''.azureedge.net'', EndsWith ''.azurecontainer.io'',
        EndsWith ''.database.windows.net'']),
     (''gcp'',
       [EndsWith ''.googleapis.com'', EndsWith ''.googleusercontent.com'',
        EndsWith ''.appspot.com'', EndsWith ''.cloudfunctions.net'', EndsWith ''.run.app'',
        EndsWith ''.storage.googleapis.com'', EndsWith ''.googlehosted.com'']),
     (''digitalocean'',
       [EndsWith ''.digitaloceanspaces.com'', EndsWith ''.ondigitalocean.app'',
        EndsWith ''.do.dev'']),
     (''cloudflare'',
       [EndsWith ''.cloudflare.com'', EndsWith ''.workers.dev'', EndsWith ''.pages.dev'']),
     (''vercel'', [EndsWith ''.vercel.app'', EndsWith ''.now.sh'']),
     (''netlify'', [EndsWith ''.netlify.app'', EndsWith ''.netlify.com''])]"

definition inferResourceType :: "string \<Rightarrow> string \<Rightarrow> string" where
  "inferResourceType hostname provider =
    (if provider = ''aws'' then
       (if str_includes hostname ''s3'' then ''storage''
        else if str_includes hostname ''elb'' \<or> str_includes hostname ''loadbalancer''
          then ''loadbalancer''
        else if str_includes hostname ''rds'' then ''database''
        else if str_includes hostname ''cloudfront'' then ''cdn''
        else if str_includes hostname ''execute-api'' then ''api-gateway''
        else if str_includes hostname ''elasticbeanstalk'' then ''application''
        else ''compute'')
     else if provider = ''azure'' then
       (if str_includes hostname ''azurewebsites'' then ''webapp''
        else if str_includes hostname ''database'' then ''database''
        else if str_includes hostname ''storage'' then ''storage''
        else if str_includes hostname ''cloudapp'' then ''compute''
        else if str_includes hostname ''azureedge'' then ''cdn''
        else ''application'')
     else if provider = ''gcp'' then
       (if str_includes hostname ''storage'' then ''storage''
        else if str_includes hostname ''appspot'' then ''appengine''
        else if str_includes hostname ''cloudfunctions'' then ''functions''
        else if str_includes hostname ''run.app'' then ''cloudrun''
        else ''compute'')
     else ''application'')"

text \<open>
  The two nested loops of \<open>detectCloudProvider\<close>: providers in table order, patterns in
  list order, returning at the first pattern that matches.
\<close>

fun anyPattern :: "pattern list \<Rightarrow> string \<Rightarrow> bool" where
  "anyPattern [] hostname = False"
| "anyPattern (p # ps) hostname = (if test p hostname then True else anyPattern ps hostname)"

fun matchProviders :: "(string \<times> pattern list) list \<Rightarrow> string \<Rightarrow> (string \<times> string) option" where
  "matchProviders [] hostname = None"
| "matchProviders ((name, patterns) # rest) hostname =
     (if anyPattern patterns hostname then Some (name, inferResourceType hostname name)
      else matchProviders rest hostname)"

fun matchReverse :: "string list \<Rightarrow> (string \<times> string) option" where
  "matchReverse [] = None"
| "matchReverse (reverseHostname # rest) =
     (case matchProviders CLOUD_PROVIDERS reverseHostname of
        Some r \<Rightarrow> Some r
      | None \<Rightarrow> matchReverse rest)"

text \<open>
  The resolver: \<open>dnsLookup\<close> gives the address of a host name, \<open>dnsReverse\<close> the host names
  of an address; \<open>None\<close> is a rejected promise, which the \<open>try\<close> around both swallows.
\<close>

record Dns =
  dnsLookup :: "string \<Rightarrow> string option"
  dnsReverse :: "string \<Rightarrow> string list option"

definition detectCloudProvider :: "Dns \<Rightarrow> string \<Rightarrow> (string \<times> string) option" where
  "detectCloudProvider dns hostname =
    (case matchProviders CLOUD_PROVIDERS hostname of
       Some r \<Rightarrow> Some r
     | None \<Rightarrow>
        (case dnsLookup dns hostname of
           None \<Rightarrow> None
         | Some address \<Rightarrow>
            (case dnsReverse dns address of
               None \<Rightarrow> None
             | Some reverseHostnames \<Rightarrow> matchReverse reverseHostnames)))"

datatype severity_level = Low | Medium | High | Critical

record CloudSecurityFinding =
  f_id :: string
  f_severity :: severity_level
  f_title :: string
  f_description :: string
  f_recommendation :: string
  f_complianceFramework :: "string list"

definition analyzeAWSResource :: "string \<Rightarrow> string \<Rightarrow> string \<Rightarrow> CloudSecurityFinding list" where
  "analyzeAWSResource resourceType hostname url =
    (if resourceType = ''storage'' \<and> str_includes hostname ''s3'' then
       [\<lparr>f_id = ''aws-s3-public-access'', f_severity = High,
         f_title = ''S3 Bucket Public Access'',
         f_description = ''S3 bucket appears to be publicly accessible via direct URL'',
         f_recommendation = ''Review bucket policy and ACLs. Implement least privilege access and consider using CloudFront for public content.'',
         f_complianceFramework = [''CIS'', ''AWS-Foundational'']\<rparr>]
     else [])
    @ (if resourceType = ''cdn'' \<and> str_includes hostname ''cloudfront'' then
       [\<lparr>f_id = ''aws-cloudfront-security-headers'', f_severity = Medium,
         f_title = ''CloudFront Security Headers'',
         f_description = ''Verify that CloudFront distribution includes security headers'',
         f_recommendation = ''Configure CloudFront to add security headers like HSTS, CSP, X-Content-Type-Options'',
         f_complianceFramework = [''OWASP'', ''CIS'']\<rparr>]
     else [])
    @ (if resourceType = ''loadbalancer'' then
       [\<lparr>f_id = ''aws-elb-ssl-policy'', f_severity = Medium,
         f_title = ''Load Balancer SSL Policy'',
         f_description = ''Ensure load balancer uses strong SSL/TLS policy'',
         f_recommendation = ''Configure ELB to use predefined security policy ELBSecurityPolicy-TLS-1-2-2017-01 or newer'',
         f_complianceFramework = [''CIS'', ''PCI-DSS'']\<rparr>]
     else [])"

definition analyzeAzureResource :: "string \<Rightarrow> string \<Rightarrow> string \<Rightarrow> CloudSecurityFinding list" where
  "analyzeAzureResource resourceType hostname url =
    (if resourceType = ''webapp'' then
       [\<lparr>f_id = ''azure-webapp-https'', f_severity = High,
         f_title = ''Azure Web App HTTPS Enforcement'',
         f_description = ''Verify HTTPS-only access is enforced for Azure Web App'',
         f_recommendation = ''Enable \"HTTPS Only\" setting in Azure portal and redirect HTTP to HTTPS'',
         f_complianceFramework = [''CIS'', ''Azure-Security-Benchmark'']\<rparr>,
        \<lparr>f_id = ''azure-webapp-managed-identity'', f_severity = Medium,
         f_title = ''Managed Identity Configuration'',
         f_description = ''Consider using Azure Managed Identity for secure resource access'',
         f_recommendation = ''Enable system-assigned managed identity to eliminate stored credentials'',
         f_complianceFramework = [''Azure-Security-Benchmark'']\<rparr>]
     else [])
    @ (if resourceType = ''storage'' then
       [\<lparr>f_id = ''azure-storage-access'', f_severity = High,
         f_title = ''Azure Storage Account Security'',
         f_description = ''Review storage account access configuration'',
         f_recommendation = ''Disable public blob access and use private endpoints where possible'',
         f_complianceFramework = [''CIS'', ''Azure-Security-Benchmark'']\<rparr>]
     else [])"

definition analyzeGCPResource :: "string \<Rightarrow> string \<Rightarrow> string \<Rightarrow> CloudSecurityFinding list" where
  "analyzeGCPResource resourceType hostname url =
    (if resourceType = ''appengine'' then
       [\<lparr>f_id = ''gcp-appengine-security'', f_severity = Medium,
         f_title = ''App Engine Security Configuration'',
         f_description = ''Review App Engine security settings and IAM policies'',
         f_recommendation = ''Implement least privilege IAM roles and enable audit logging'',
         f_complianceFramework = [''CIS'', ''GCP-Security-Benchmark'']\<rparr>]
     else [])
    @ (if resourceType = ''storage'' then
       [\<lparr>f_id = ''gcp-storage-bucket-policy'', f_severity = High,
         f_title = ''Cloud Storage Bucket Policy'',
         f_description = ''Verify bucket access controls and public access prevention'',
         f_recommendation = ''Enable uniform bucket-level access and review bucket IAM policies'',
         f_complianceFramework = [''CIS'', ''GCP-Security-Benchmark'']\<rparr>]
     else [])
    @ (if resourceType = ''cloudrun'' then
       [\<lparr>f_id = ''gcp-cloudrun-auth'', f_severity = Medium,
         f_title = ''Cloud Run Authentication'',
         f_description = ''Ensure proper authentication is configured for Cloud Run services'',
         f_recommendation = ''Configure IAM authentication and avoid allowing unauthenticated access'',
         f_complianceFramework = [''GCP-Security-Benchmark'']\<rparr>]
     else [])"

definition analyzeGenericCloudResource :: "string \<Rightarrow> string \<Rightarrow> string \<Rightarrow> CloudSecurityFinding list" where
  "analyzeGenericCloudResource resourceType hostname url =
    [\<lparr>f_id = ''cloud-https-enforcement'', f_severity = Medium,
      f_title = ''HTTPS Enforcement'',
      f_description = ''Verify that HTTPS is properly enforced for cloud resources'',
      f_recommendation = ''Configure automatic HTTPS redirect and use strong TLS configuration'',
      f_complianceFramework = [''OWASP'', ''General'']\<rparr>,
     \<lparr>f_id = ''cloud-access-logging'', f_severity = Low,
      f_title = ''Access Logging'',
      f_description = ''Ensure comprehensive access logging is enabled'',
      f_recommendation = ''Enable access logs and integrate with SIEM for monitoring'',
      f_complianceFramework = [''General'']\<rparr>]"

text \<open>
  \<open>extractRegion\<close> returns the first match of a regular expression in the host name. For
  AWS it is \<open>/([a-z]{2}-[a-z]+-\d)/\<close>: two lower-case letters, a hyphen, the longest run of
  lower-case letters (it must be followed by a hyphen, so no shorter run can succeed), a
  hyphen and a digit. For Azure and GCP it is an alternation of literal region names, tried
  in the order written at each position.
\<close>

definition isLowerAZ :: "char \<Rightarrow> bool" where
  "isLowerAZ c = (97 \<le> (of_char c :: nat) \<and> (of_char c :: nat) \<le> 122)"

definition isDigit :: "char \<Rightarrow> bool" where
  "isDigit c = (48 \<le> (of_char c :: nat) \<and> (of_char c :: nat) \<le> 57)"

fun firstMatch :: "(string \<Rightarrow> string option) \<Rightarrow> string \<Rightarrow> string option" where
  "firstMatch m [] = m []"
| "firstMatch m (c # cs) = (case m (c # cs) of Some r \<Rightarrow> Some r | None \<Rightarrow> firstMatch m cs)"

fun awsRegionAt :: "string \<Rightarrow> string option" where
  "awsRegionAt (a # b # c # rest) =
     (if isLowerAZ a \<and> isLowerAZ b \<and> c = CHR ''-'' \<and> takeWhile isLowerAZ rest \<noteq> [] then
        (case dropWhile isLowerAZ rest of
           d # e # _ \<Rightarrow>
             (if d = CHR ''-'' \<and> isDigit e
              then Some ([a, b, c] @ takeWhile isLowerAZ rest @ [d, e]) else None)
         | _ \<Rightarrow> None)
      else None)"
| "awsRegionAt _ = None"

definition literalAt :: "string list \<Rightarrow> string \<Rightarrow> string option" where
  "literalAt alternatives s = find (\<lambda>a. prefix a s) alternatives"

definition extractRegion :: "string \<Rightarrow> string \<Rightarrow> string option" where
  "extractRegion hostname provider =
    (if provider = ''aws'' then firstMatch awsRegionAt hostname
     else if provider = ''azure'' then
       firstMatch (literalAt [''eastus'', ''westus'', ''centralus'', ''northeurope'', ''westeurope'',
                              ''southeastasia'', ''eastasia'']) hostname
     else if provider = ''gcp'' then
       firstMatch (literalAt [''us-central1'', ''us-east1'', ''us-west1'', ''europe-west1'',
                              ''asia-east1'']) hostname
     else None)"

record CloudResourceAnalysis =
  cr_provider :: string
  cr_resourceType :: string
  cr_resourceId :: string
  cr_region :: "string option"
  cr_findings :: "CloudSecurityFinding list"
  cr_score :: int
  cr_riskLevel :: severity_level

text \<open>
  The two blocks of \<open>performCloudSecurityAnalysis\<close> that follow the provider switch, as
  functions of the findings: the \<open>forEach\<close> that lowers \<open>score\<close> from 100, with the clamp
  \<open>Math.max(0, score)\<close>, and the choice of \<open>riskLevel\<close> from the counts.
\<close>

definition scoreStep :: "int \<Rightarrow> CloudSecurityFinding \<Rightarrow> int" where
  "scoreStep sc finding =
    (case f_severity finding of
       Critical \<Rightarrow> sc - 25
     | High \<Rightarrow> sc - 15
     | Medium \<Rightarrow> sc - 10
     | Low \<Rightarrow> sc - 5)"

definition cloudScore :: "CloudSecurityFinding list \<Rightarrow> int" where
  "cloudScore findings = max 0 (foldl scoreStep 100 findings)"

definition cloudRiskLevel :: "CloudSecurityFinding list \<Rightarrow> severity_level" where
  "cloudRiskLevel findings =
    (let criticalCount = length (filter (\<lambda>f. f_severity f = Critical) findings);
         highCount = length (filter (\<lambda>f. f_severity f = High) findings)
     in if criticalCount > 0 then Critical
        else if highCount > 2 then High
        else if highCount > 0 \<or> length (filter (\<lambda>f. f_severity f = Medium) findings) > 3
          then Medium
        else Low)"

definition performCloudSecurityAnalysis ::
    "string \<times> string \<Rightarrow> string \<Rightarrow> string \<Rightarrow> CloudResourceAnalysis" where
  "performCloudSecurityAnalysis cloudInfo hostname url =
    (let provider = fst cloudInfo;
         resourceType = snd cloudInfo;
         findings =
           (if provider = ''aws'' then analyzeAWSResource resourceType hostname url
            else if provider = ''azure'' then analyzeAzureResource resourceType hostname url
            else if provider = ''gcp'' then analyzeGCPResource resourceType hostname url
            else analyzeGenericCloudResource resourceType hostname url)
     in \<lparr>cr_provider = provider, cr_resourceType = resourceType, cr_resourceId = hostname,
         cr_region = extractRegion hostname provider, cr_findings = findings,
         cr_score = cloudScore findings, cr_riskLevel = cloudRiskLevel findings\<rparr>)"

section \<open>TLS posture (ssl-analyzer, analyzeSslCertificate)\<close>

text \<open>\<open>parts.join(', ')\<close>.\<close>

fun join :: "string \<Rightarrow> string list \<Rightarrow> string" where
  "join sep [] = []"
| "join sep [x] = x"
| "join sep (x # y # ys) = x @ sep @ join sep (y # ys)"

definition formatCertificateField :: "cert_field \<Rightarrow> string" where
  "formatCertificateField field =
    (case field of
       FieldAbsent \<Rightarrow> ''Unknown''
     | FieldString str \<Rightarrow> (if str = [] then ''Unknown'' else str)
     | FieldObject cn org ou c js \<Rightarrow>
        (let parts = (if truthy_str cn then [''CN='' @ the cn] else [])
                   @ (if truthy_str org then [''O='' @ the org] else [])
                   @ (if truthy_str ou then [''OU='' @ the ou] else [])
                   @ (if truthy_str c then [''C='' @ the c] else [])
         in if length parts > 0 then join '', '' parts else js))"

text \<open>
  The network and the clock, as \<open>analyzeSslCertificate\<close> sees them. \<open>parseUrl\<close> is
  \<open>new URL(url).hostname\<close>; every promise either rejects with a message (\<open>Inl\<close>) or
  resolves (\<open>Inr\<close>). \<open>gradeTime\<close> and \<open>postureTime\<close> are the two readings \<open>new Date()\<close>, the
  first inside \<open>calculateSslGrade\<close>, the second after the HSTS check.
\<close>

record TlsEnv =
  parseUrl :: "string \<Rightarrow> string + string"
  getCertificateInfo :: "string \<Rightarrow> string + CertificateInfo"
  testTlsProtocol :: "string \<Rightarrow> string \<Rightarrow> string + bool"
  getCipherSuites :: "string \<Rightarrow> string + string list"
  checkHSTS :: "string \<Rightarrow> string + bool"
  gradeTime :: int
  postureTime :: int

text \<open>
  The loop of \<open>analyzeSslConfiguration\<close> over \<open>protocolsToTest\<close>: a protocol is recorded when
  its test resolves to true; a test that resolves to false or rejects records nothing.
\<close>

fun testProtocols :: "'a TlsEnv_scheme \<Rightarrow> string \<Rightarrow> string list \<Rightarrow> string list \<Rightarrow> string list" where
  "testProtocols env hostname supported [] = supported"
| "testProtocols env hostname supported (proto # rest) =
     (case testTlsProtocol env hostname proto of
        Inr isSupported \<Rightarrow>
          testProtocols env hostname (if isSupported then supported @ [proto] else supported) rest
      | Inl e \<Rightarrow> testProtocols env hostname supported rest)"

definition analyzeSslConfiguration :: "'a TlsEnv_scheme \<Rightarrow> string \<Rightarrow> SslConfig" where
  "analyzeSslConfiguration env hostname =
    \<lparr>supportedProtocols =
       testProtocols env hostname [] [''TLSv1.3'', ''TLSv1.2'', ''TLSv1.1'', ''TLSv1''],
     supportedCiphers =
       (case getCipherSuites env hostname of Inr ciphers \<Rightarrow> ciphers | Inl e \<Rightarrow> [])\<rparr>"

record InsertSslAnalysis =
  ssl_scanId :: string
  ssl_hostname :: string
  ssl_certificateValid :: bool
  ssl_certificateExpiry :: "int option"
  ssl_issuer :: string
  ssl_subject :: string
  ssl_signatureAlgorithm :: string
  ssl_keySize :: "int option"
  ssl_protocolVersions :: "string list"
  ssl_cipherSuites :: "string list"
  ssl_grade :: string
  ssl_hasHSTS :: bool
  ssl_vulnerabilities :: "string list"
  ssl_score :: int
  ssl_daysUntilExpiry :: "int option"

text \<open>The object returned from the \<open>catch\<close> block: the failed analysis.\<close>

definition failedSslAnalysis :: "string \<Rightarrow> string \<Rightarrow> InsertSslAnalysis" where
  "failedSslAnalysis scanId hostname =
    \<lparr>ssl_scanId = scanId, ssl_hostname = hostname, ssl_certificateValid = False,
     ssl_certificateExpiry = None, ssl_issuer = ''Unknown'', ssl_subject = ''Unknown'',
     ssl_signatureAlgorithm = ''Unknown'', ssl_keySize = None, ssl_protocolVersions = [],
     ssl_cipherSuites = [], ssl_grade = ''F'', ssl_hasHSTS = False,
     ssl_vulnerabilities = [''SSL/TLS connection failed''], ssl_score = 0,
     ssl_daysUntilExpiry = None\<rparr>"

text \<open>The body of the \<open>try\<close> block: \<open>Inl\<close> is an exception thrown inside it.\<close>

definition sslTryBody :: "'a TlsEnv_scheme \<Rightarrow> string \<Rightarrow> string \<Rightarrow> string + InsertSslAnalysis" where
  "sslTryBody env hostname scanId =
    (case getCertificateInfo env hostname of
       Inl e \<Rightarrow> Inl e
     | Inr certInfo \<Rightarrow>
        (let sslConfig = analyzeSslConfiguration env hostname;
             gradeInfo = calculateSslGrade (gradeTime env) certInfo sslConfig
         in case checkHSTS env hostname of
              Inl e \<Rightarrow> Inl e
            | Inr hasHSTS \<Rightarrow>
               (let expiryDate = valid_to certInfo;
                    now = postureTime env
                in Inr \<lparr>ssl_scanId = scanId, ssl_hostname = hostname,
                        ssl_certificateValid = (expiryDate > now),
                        ssl_certificateExpiry = Some expiryDate,
                        ssl_issuer = formatCertificateField (issuer certInfo),
                        ssl_subject = formatCertificateField (subject certInfo),
                        ssl_signatureAlgorithm = sigalg certInfo,
                        ssl_keySize = keySize certInfo,
                        ssl_protocolVersions = supportedProtocols sslConfig,
                        ssl_cipherSuites = supportedCiphers sslConfig,
                        ssl_grade = grade gradeInfo, ssl_hasHSTS = hasHSTS,
                        ssl_vulnerabilities = vulnerabilities gradeInfo,
                        ssl_score = score gradeInfo,
                        ssl_daysUntilExpiry = Some (daysUntilExpiry expiryDate now)\<rparr>)))"

text \<open>
  \<open>analyzeSslCertificate\<close>: the host name is taken from the url before the \<open>try\<close>, so a url
  that does not parse makes the function itself reject (\<open>Inl\<close>); every exception of the
  \<open>try\<close> block is replaced by the failed analysis.
\<close>

definition analyzeSslCertificate :: "'a TlsEnv_scheme \<Rightarrow> string \<Rightarrow> string \<Rightarrow> string + InsertSslAnalysis" where
  "analyzeSslCertificate env url scanId =
    (case parseUrl env url of
       Inl e \<Rightarrow> Inl e
     | Inr hostname \<Rightarrow>
        (case sslTryBody env hostname scanId of
           Inr analysis \<Rightarrow> Inr analysis
         | Inl e \<Rightarrow> Inr (failedSslAnalysis scanId hostname)))"

section \<open>Header posture (security-headers-analyzer, analyzeSecurityHeaders)\<close>

text \<open>
  The object \<open>analyzeSecurityHeaders\<close> returns: the members of the analysis, each passed
  through \<open>|| null\<close>, with the scan id, host name, score, grade and the two lists.
\<close>

record InsertSecurityHeaders = SecurityHeadersAnalysis +
  sh_scanId :: string
  sh_hostname :: string
  sh_securityScore :: int
  sh_grade :: string
  sh_missingHeaders :: "string list"
  sh_weakHeaders :: "string list"

definition orNull :: "string option \<Rightarrow> string option" where
  "orNull x = (if truthy_str x then x else None)"

text \<open>
  The environment of a whole scan extends that of the TLS analyzer. \<open>fetchHeaderAnalysis\<close>
  is \<open>analyzeHeaders(await fetchSecurityHeaders(url))\<close>, or the rejection of the fetch;
  \<open>portEvents\<close> gives the events each probe's socket emits; \<open>randomUUID\<close> and
  \<open>requestTime\<close> are the id and the clock reading \<open>createScan\<close> uses, \<open>finishTime\<close> the
  clock reading when the scan is completed or failed.
\<close>

record ScanEnv = TlsEnv +
  fetchHeaderAnalysis :: "string \<Rightarrow> string + SecurityHeadersAnalysis"
  portEvents :: "string \<Rightarrow> int \<Rightarrow> socket_event list"
  randomUUID :: string
  requestTime :: int
  finishTime :: int

definition analyzeSecurityHeaders :: "ScanEnv \<Rightarrow> string \<Rightarrow> string \<Rightarrow> string + InsertSecurityHeaders" where
  "analyzeSecurityHeaders env url scanId =
    (case parseUrl env url of
       Inl e \<Rightarrow> Inl e
     | Inr hostname \<Rightarrow>
        (case fetchHeaderAnalysis env url of
           Inr analysis \<Rightarrow>
             (let sg = calculateSecurityScore analysis;
                  issues = identifyIssues analysis
              in Inr \<lparr>hsts = hsts analysis, csp = csp analysis,
                      xFrameOptions = orNull (xFrameOptions analysis),
                      xContentTypeOptions = orNull (xContentTypeOptions analysis),
                      xXSSProtection = orNull (xXSSProtection analysis),
                      referrerPolicy = orNull (referrerPolicy analysis),
                      permissionsPolicy = orNull (permissionsPolicy analysis),
                      expectCT = expectCT analysis,
                      crossOriginEmbedderPolicy = orNull (crossOriginEmbedderPolicy analysis),
                      crossOriginOpenerPolicy = orNull (crossOriginOpenerPolicy analysis),
                      crossOriginResourcePolicy = orNull (crossOriginResourcePolicy analysis),
                      sh_scanId = scanId, sh_hostname = hostname,
                      sh_securityScore = fst sg, sh_grade = snd sg,
                      sh_missingHeaders = missingHeaders issues,
                      sh_weakHeaders = weakHeaders issues\<rparr>)
         | Inl e \<Rightarrow>
             Inr \<lparr>hsts = None, csp = None, xFrameOptions = None, xContentTypeOptions = None,
                  xXSSProtection = None, referrerPolicy = None, permissionsPolicy = None,
                  expectCT = None, crossOriginEmbedderPolicy = None,
                  crossOriginOpenerPolicy = None, crossOriginResourcePolicy = None,
                  sh_scanId = scanId, sh_hostname = hostname, sh_securityScore = 0,
                  sh_grade = ''F'',
                  sh_missingHeaders = [''All security headers missing due to connection failure''],
                  sh_weakHeaders = []\<rparr>))"

section \<open>Storage (MemStorage)\<close>

record ScanSummary =
  totalPorts :: nat
  openPorts :: nat
  vulnerabilityCount :: nat
  sslAnalyzed :: bool
  securityHeadersAnalyzed :: bool

record Scan =
  scan_id :: string
  scan_url :: string
  scan_status :: string
  scan_results :: "ScanSummary option"
  scan_createdAt :: int
  scan_completedAt :: "int option"
  scan_errorMessage :: "string option"

text \<open>\<open>Partial<Scan>\<close>, as \<open>performScan\<close> uses it: the members an update may carry.\<close>

record ScanUpdates =
  u_status :: "string option"
  u_completedAt :: "int option"
  u_results :: "ScanSummary option"
  u_errorMessage :: "string option"

record InsertScanResult =
  sr_scanId :: string
  sr_port :: int
  sr_protocol :: string
  sr_service :: "string option"
  sr_version :: "string option"
  sr_state :: string
  sr_riskLevel :: "string option"

record InsertVulnerability = Vuln +
  v_scanId :: string

text \<open>
  The maps of \<open>MemStorage\<close>. The scans are looked up by id. The child records are stored
  under fresh random ids and read back with \<open>values()\<close>, in insertion order: they are
  lists, and \<open>set(id, record)\<close> appends.
\<close>

record MemStorage =
  st_scans :: "string \<rightharpoonup> Scan"
  st_scanResults :: "InsertScanResult list"
  st_vulnerabilities :: "InsertVulnerability list"
  st_sslAnalyses :: "InsertSslAnalysis list"
  st_securityHeaders :: "InsertSecurityHeaders list"

definition emptyStorage :: MemStorage where
  "emptyStorage =
    \<lparr>st_scans = Map.empty, st_scanResults = [], st_vulnerabilities = [], st_sslAnalyses = [],
     st_securityHeaders = []\<rparr>"

definition createScan :: "MemStorage \<Rightarrow> string \<Rightarrow> string \<Rightarrow> int \<Rightarrow> Scan \<times> MemStorage" where
  "createScan st url ident now =
    (let scan = \<lparr>scan_id = ident, scan_url = url, scan_status = ''pending'',
                  scan_results = None, scan_createdAt = now, scan_completedAt = None,
                  scan_errorMessage = None\<rparr>
     in (scan, st\<lparr>st_scans := (st_scans st)(ident \<mapsto> scan)\<rparr>))"

definition applyUpdates :: "Scan \<Rightarrow> ScanUpdates \<Rightarrow> Scan" where
  "applyUpdates scan updates =
    scan\<lparr>scan_status := (case u_status updates of Some x \<Rightarrow> x | None \<Rightarrow> scan_status scan),
         scan_completedAt :=
           (case u_completedAt updates of Some x \<Rightarrow> Some x | None \<Rightarrow> scan_completedAt scan),
         scan_results :=
           (case u_results updates of Some x \<Rightarrow> Some x | None \<Rightarrow> scan_results scan),
         scan_errorMessage :=
           (case u_errorMessage updates of Some x \<Rightarrow> Some x | None \<Rightarrow> scan_errorMessage scan)\<rparr>"

definition updateScan :: "MemStorage \<Rightarrow> string \<Rightarrow> ScanUpdates \<Rightarrow> MemStorage" where
  "updateScan st ident updates =
    (case st_scans st ident of
       None \<Rightarrow> st
     | Some scan \<Rightarrow> st\<lparr>st_scans := (st_scans st)(ident \<mapsto> applyUpdates scan updates)\<rparr>)"

definition addScanResult :: "MemStorage \<Rightarrow> InsertScanResult \<Rightarrow> MemStorage" where
  "addScanResult st result = st\<lparr>st_scanResults := st_scanResults st @ [result]\<rparr>"

definition addVulnerability :: "MemStorage \<Rightarrow> InsertVulnerability \<Rightarrow> MemStorage" where
  "addVulnerability st vulnerability =
     st\<lparr>st_vulnerabilities := st_vulnerabilities st @ [vulnerability]\<rparr>"

definition addSslAnalysis :: "MemStorage \<Rightarrow> InsertSslAnalysis \<Rightarrow> MemStorage" where
  "addSslAnalysis st analysis = st\<lparr>st_sslAnalyses := st_sslAnalyses st @ [analysis]\<rparr>"

definition addSecurityHeaders :: "MemStorage \<Rightarrow> InsertSecurityHeaders \<Rightarrow> MemStorage" where
  "addSecurityHeaders st headers = st\<lparr>st_securityHeaders := st_securityHeaders st @ [headers]\<rparr>"

section \<open>Scan orchestration (routes, performScan and POST /api/scans)\<close>

text \<open>
  A run of \<open>performScan\<close> is followed through the store and a trace of its effects, in the
  order in which they happen: every write of the scan's status, every probe started, every
  child record stored, every analyzer called.
\<close>

datatype action =
    UpdateScanStatus string
  | ScanPort int
  | AddScanResult int
  | AddVulnerability string
  | AnalyzeSsl
  | AddSslAnalysis
  | AnalyzeHeaders
  | AddSecurityHeaders

record Run =
  store :: MemStorage
  trace :: "action list"

definition logged :: "action \<Rightarrow> (MemStorage \<Rightarrow> MemStorage) \<Rightarrow> Run \<Rightarrow> Run" where
  "logged a f r = \<lparr>store = f (store r), trace = trace r @ [a]\<rparr>"

text \<open>
  \<open>await Promise.all(promises)\<close>: rejected when a promise is rejected, resolved with all
  the values when all are resolved, and pending for ever otherwise.
\<close>

fun awaitAll :: "'a promise list \<Rightarrow> 'a list promise" where
  "awaitAll [] = Resolved []"
| "awaitAll (p # ps) =
     (case p of
        Rejected e \<Rightarrow> Rejected e
      | Pending \<Rightarrow> (case awaitAll ps of Rejected e \<Rightarrow> Rejected e | _ \<Rightarrow> Pending)
      | Resolved v \<Rightarrow>
         (case awaitAll ps of
            Resolved vs \<Rightarrow> Resolved (v # vs)
          | Pending \<Rightarrow> Pending
          | Rejected e \<Rightarrow> Rejected e))"

definition commonPorts :: "int list" where
  "commonPorts = [21, 22, 23, 25, 53, 80, 110, 143, 443, 993, 995, 3389, 5432, 3306, 6379, 27017]"

text \<open>The \<open>catch\<close> block of \<open>performScan\<close>.\<close>

definition failScan :: "ScanEnv \<Rightarrow> Run \<Rightarrow> string \<Rightarrow> string \<Rightarrow> Run" where
  "failScan env r scanId message =
    logged (UpdateScanStatus ''failed'')
      (\<lambda>st. updateScan st scanId
         \<lparr>u_status = Some ''failed'', u_completedAt = Some (finishTime env), u_results = None,
          u_errorMessage = Some message\<rparr>) r"

text \<open>The two loops that store the open ports and the vulnerabilities.\<close>

definition storeResult :: "string \<Rightarrow> Run \<Rightarrow> PortResult \<Rightarrow> Run" where
  "storeResult scanId r result =
    (if state result = ''open'' then
       logged (AddScanResult (port result))
         (\<lambda>st. addScanResult st
            \<lparr>sr_scanId = scanId, sr_port = port result, sr_protocol = protocol result,
             sr_service = Some (if truthy_str (service result) then the (service result)
                                else ''unknown''),
             sr_version = None, sr_state = state result,
             sr_riskLevel = Some (getRiskLevel (port result)
                                   (if truthy_str (service result) then the (service result)
                                    else []))\<rparr>) r
     else r)"

definition storeVulnerability :: "string \<Rightarrow> Run \<Rightarrow> Vuln \<Rightarrow> Run" where
  "storeVulnerability scanId r vuln =
    logged (AddVulnerability (title vuln))
      (\<lambda>st. addVulnerability st
         \<lparr>title = title vuln, description = description vuln, severity = severity vuln,
          recommendation = recommendation vuln, v_scanId = scanId\<rparr>) r"

text \<open>
  \<open>performScan\<close>. The result is \<open>None\<close> when the function never returns, which happens
  only while a probe stays pending. The only statement of the \<open>try\<close> block that can throw
  is \<open>new URL(url)\<close>: the store never fails, the probes never reject, and each analyzer
  runs inside a \<open>try\<close> of its own.
\<close>

definition performScan :: "ScanEnv \<Rightarrow> Run \<Rightarrow> string \<Rightarrow> string \<Rightarrow> Run option" where
  "performScan env r0 scanId url =
    (let r1 = logged (UpdateScanStatus ''running'')
                (\<lambda>st. updateScan st scanId
                   \<lparr>u_status = Some ''running'', u_completedAt = None, u_results = None,
                    u_errorMessage = None\<rparr>) r0
     in case parseUrl env url of
          Inl e \<Rightarrow> Some (failScan env r1 scanId e)
        | Inr hostname \<Rightarrow>
           (let r2 = r1\<lparr>trace := trace r1 @ map ScanPort commonPorts\<rparr>;
                scanPromises =
                  map (\<lambda>p. promise (scanPort hostname p 3000 (portEvents env hostname p)))
                    commonPorts
            in case awaitAll scanPromises of
                 Pending \<Rightarrow> None
               | Rejected e \<Rightarrow> Some (failScan env r2 scanId e)
               | Resolved results \<Rightarrow>
                  (let r3 = foldl (storeResult scanId) r2 results;
                       vulns = analyzeVulnerabilities (filter (\<lambda>x. state x = ''open'') results);
                       r4 = foldl (storeVulnerability scanId) r3 vulns;
                       httpsPort = find (\<lambda>x. port x = 443 \<and> state x = ''open'') results;
                       httpPort = find (\<lambda>x. port x = 80 \<and> state x = ''open'') results;
                       (sslAnalysis, r5) =
                         (if httpsPort \<noteq> None then
                            (case analyzeSslCertificate env url scanId of
                               Inr a \<Rightarrow>
                                 (Some a,
                                  logged AddSslAnalysis (\<lambda>st. addSslAnalysis st a)
                                    (logged AnalyzeSsl id r4))
                             | Inl e \<Rightarrow> (None, logged AnalyzeSsl id r4))
                          else (None, r4));
                       (securityHeadersAnalysis, r6) =
                         (if httpsPort \<noteq> None \<or> httpPort \<noteq> None then
                            (case analyzeSecurityHeaders env url scanId of
                               Inr h \<Rightarrow>
                                 (Some h,
                                  logged AddSecurityHeaders (\<lambda>st. addSecurityHeaders st h)
                                    (logged AnalyzeHeaders id r5))
                             | Inl e \<Rightarrow> (None, logged AnalyzeHeaders id r5))
                          else (None, r5))
                   in Some (logged (UpdateScanStatus ''completed'')
                        (\<lambda>st. updateScan st scanId
                           \<lparr>u_status = Some ''completed'',
                            u_completedAt = Some (finishTime env),
                            u_results =
                              Some \<lparr>totalPorts = length results,
                                    openPorts = length (filter (\<lambda>x. state x = ''open'') results),
                                    vulnerabilityCount = length vulns,
                                    sslAnalyzed = (sslAnalysis \<noteq> None),
                                    securityHeadersAnalyzed = (securityHeadersAnalysis \<noteq> None)\<rparr>,
                            u_errorMessage = None\<rparr>) r6))))"

text \<open>
  The handler of \<open>POST /api/scans\<close>, after the rate limiter. \<open>body\<close> is the \<open>url\<close> member of
  the request body when \<open>insertScanSchema.parse\<close> accepts the body, \<open>None\<close> when it throws.
  The result is the response, the store, and the scan the handler launches: \<open>performScan\<close>
  is started without being awaited.
\<close>

datatype response = BadRequest string | OkScan Scan

definition postScans ::
    "ScanEnv \<Rightarrow> MemStorage \<Rightarrow> string option \<Rightarrow> response \<times> MemStorage \<times> (string \<times> string) option" where
  "postScans env st body =
    (case body of
       None \<Rightarrow> (BadRequest ''Invalid request data'', st, None)
     | Some url \<Rightarrow>
        (case parseUrl env url of
           Inl e \<Rightarrow> (BadRequest ''Invalid URL format'', st, None)
         | Inr hostname \<Rightarrow>
            (let (scan, st') = createScan st url (randomUUID env) (requestTime env)
             in (OkScan scan, st', Some (scan_id scan, url)))))"

text \<open>The statuses a trace writes, in order.\<close>

fun statusWrites :: "action list \<Rightarrow> string list" where
  "statusWrites [] = []"
| "statusWrites (UpdateScanStatus s # as) = s # statusWrites as"
| "statusWrites (a # as) = statusWrites as"

text \<open>
  A step of a run that leaves every scan as it is, only appends to the child records and
  to the trace, and writes no status.
\<close>

definition quietStep :: "Run \<Rightarrow> Run \<Rightarrow> bool" where
  "quietStep r r' =
    (st_scans (store r') = st_scans (store r)
     \<and> prefix (st_scanResults (store r)) (st_scanResults (store r'))
     \<and> prefix (st_vulnerabilities (store r)) (st_vulnerabilities (store r'))
     \<and> prefix (st_sslAnalyses (store r)) (st_sslAnalyses (store r'))
     \<and> prefix (st_securityHeaders (store r)) (st_securityHeaders (store r'))
     \<and> prefix (trace r) (trace r')
     \<and> statusWrites (trace r') = statusWrites (trace r))"

text \<open>
  An environment for the examples below: only the url \<open>https://example.com\<close> parses, port
  443 accepts the connection and every other port refuses it, the certificate cannot be
  fetched and the header request fails.
\<close>

definition exampleEnv :: ScanEnv where
  "exampleEnv =
    \<lparr>parseUrl = (\<lambda>u. if u = ''https://example.com'' then Inr ''example.com''
                       else Inl ''Invalid URL''),
     getCertificateInfo = (\<lambda>h. Inl ''connect ECONNREFUSED''),
     testTlsProtocol = (\<lambda>h p. Inr False),
     getCipherSuites = (\<lambda>h. Inr []),
     checkHSTS = (\<lambda>h. Inr False),
     gradeTime = 1000, postureTime = 2000,
     fetchHeaderAnalysis = (\<lambda>u. Inl ''Request timeout''),
     portEvents = (\<lambda>h p. if p = 443 then [Connect] else [SocketError]),
     randomUUID = ''scan-1'', requestTime = 0, finishTime = 5000\<rparr>"

section \<open>Properties of the TLS grading\<close>

lemma daysUntilExpiry_lt_30: "daysUntilExpiry e now < 30 \<longleftrightarrow> e - now \<le> 29 * 86400000"
  unfolding daysUntilExpiry_def by simp linarith

lemma daysUntilExpiry_ceiling:
  "86400000 * (daysUntilExpiry e now - 1) < e - now \<and> e - now \<le> 86400000 * daysUntilExpiry e now"
proof -
  define x where "x = - (e - now)"
  have 1: "86400000 * (x div 86400000) + x mod 86400000 = x" by (rule mult_div_mod_eq)
  have 2: "0 \<le> x mod 86400000" "x mod 86400000 < 86400000" by simp_all
  have d: "daysUntilExpiry e now = - (x div 86400000)"
    unfolding daysUntilExpiry_def x_def by simp
  show ?thesis unfolding d using 1 2 x_def by (simp add: algebra_simps) linarith
qed

lemma key_cond: "(truthy_num (bits c) \<and> the (bits c) < 2048) = (\<exists>b. keySize c = Some b \<and> b < 2048)"
  by (auto simp: keySize_def truthy_num_def split: option.splits)

lemma sig_cond: "(s \<noteq> [] \<and> str_includes (toLowerCase s) ''sha1'') = str_includes (toLowerCase s) ''sha1''"
  by (cases s) (auto simp: toLowerCase_def)

lemma fst_step: "fst (if b then penalise n m st else st) = fst st - (if b then n else 0)"
  by (simp add: penalise_def)

lemma snd_step: "snd (if b then penalise n m st else st) = snd st @ (if b then [m] else [])"
  by (simp add: penalise_def)

lemma fst_step2:
  "fst (if b then penalise n m st else if b' then penalise n' m' st else st)
     = fst st - (if b then n else if b' then n' else 0)"
  by (simp add: penalise_def)

lemma snd_step2:
  "snd (if b then penalise n m st else if b' then penalise n' m' st else st)
     = snd st @ (if b then [m] else if b' then [m'] else [])"
  by (simp add: penalise_def)


lemma ssl_closed:
  "calculateSslGrade now c cfg =
    (let raw = 100 - (if valid_to c \<le> now then 50 else if valid_to c - now \<le> 29 * 86400000 then 20 else 0)
                 - (if (\<exists>b. keySize c = Some b \<and> b < 2048) then 30 else 0)
                 - (if str_includes (toLowerCase (sigalg c)) ''sha1'' then 20 else 0)
                 - (if ''TLSv1'' \<in> set (supportedProtocols cfg) \<or> ''TLSv1.1'' \<in> set (supportedProtocols cfg) then 15 else 0)
                 - (if ''TLSv1.3'' \<notin> set (supportedProtocols cfg) then 10 else (0::int))
     in \<lparr>grade = (if raw \<ge> 95 then ''A+'' else if raw \<ge> 90 then ''A'' else if raw \<ge> 80 then ''B''
            else if raw \<ge> 70 then ''C'' else if raw \<ge> 60 then ''D'' else ''F''),
         score = max 0 raw,
         vulnerabilities =
           (if valid_to c \<le> now then [''Certificate has expired'']
            else if valid_to c - now \<le> 29 * 86400000 then [''Certificate expires soon (less than 30 days)''] else [])
           @ (if (\<exists>b. keySize c = Some b \<and> b < 2048) then [''Weak key size (less than 2048 bits)''] else [])
           @ (if str_includes (toLowerCase (sigalg c)) ''sha1'' then [''Weak signature algorithm (SHA-1)''] else [])
           @ (if ''TLSv1'' \<in> set (supportedProtocols cfg) \<or> ''TLSv1.1'' \<in> set (supportedProtocols cfg) then [''Supports deprecated TLS versions''] else [])
           @ (if ''TLSv1.3'' \<notin> set (supportedProtocols cfg) then [''TLS 1.3 not supported''] else [])\<rparr>)"
  unfolding calculateSslGrade_def key_cond sig_cond daysUntilExpiry_lt_30
  by (simp only: Let_def fst_step snd_step fst_step2 snd_step2 fst_conv snd_conv append_Nil append_assoc)

lemma deductions_le:
  "100 - (if e then 50 else if s then 20 else 0) - (if k then 30 else 0) - (if g then 20 else 0)
       - (if d then 15 else 0) - (if t then 10 else 0) \<le> (100::int)"
  by simp

lemma deductions_mono:
  assumes "e \<longrightarrow> e'" "s \<longrightarrow> s'" "k \<longrightarrow> k'" "g \<longrightarrow> g'" "d \<longrightarrow> d'" "t \<longrightarrow> t'"
  shows "100 - (if e' then 50 else if s' then 20 else 0) - (if k' then 30 else 0) - (if g' then 20 else 0)
       - (if d' then 15 else 0) - (if t' then 10 else 0)
    \<le> 100 - (if e then 50 else if s then 20 else 0) - (if k then 30 else 0) - (if g then 20 else 0)
       - (if d then 15 else 0) - (if t then 10 else (0::int))"
proof -
  have "(if e then 50 else if s then 20 else (0::int)) \<le> (if e' then 50 else if s' then 20 else 0)"
    using assms(1,2) by simp
  moreover have "(if k then 30 else (0::int)) \<le> (if k' then 30 else 0)" using assms(3) by simp
  moreover have "(if g then 20 else (0::int)) \<le> (if g' then 20 else 0)" using assms(4) by simp
  moreover have "(if d then 15 else (0::int)) \<le> (if d' then 15 else 0)" using assms(5) by simp
  moreover have "(if t then 10 else (0::int)) \<le> (if t' then 10 else 0)" using assms(6) by simp
  ultimately show ?thesis by linarith
qed

lemma grade_clamp:
  "(if max 0 x \<ge> 95 then ''A+'' else if max 0 x \<ge> 90 then ''A'' else if max 0 x \<ge> 80 then ''B''
            else if max 0 x \<ge> 70 then ''C'' else if max 0 x \<ge> 60 then ''D'' else ''F'')
  = (if x \<ge> 95 then ''A+'' else if x \<ge> 90 then ''A'' else if x \<ge> 80 then ''B''
            else if x \<ge> 70 then ''C'' else if x \<ge> (60::int) then ''D'' else ''F'')"
  by (simp add: max_def)

lemma length_ifs:
  "length ((if e then [a] else if s then [b] else []) @ (if k then [c] else []) @ (if g then [d] else [])
      @ (if d0 then [x] else []) @ (if t then [y] else []))
   = (if e \<or> s then 1 else 0) + (if k then 1 else 0) + (if g then 1 else 0) + (if d0 then 1 else 0) + (if t then 1 else 0)"
  by simp


text \<open>
  Claim C1, as amended. For every certificate and protocol list, \<open>calculateSslGrade\<close>
  starts from 100 and subtracts 50 when the expiry date is not after now, else 20 when
  the time left, rounded up to whole days of 24 hours, is below 30, which is exactly
  when at most 29 days (2505600000 milliseconds) are left; 30 when a key size is present
  (the posture's \<open>keySize\<close>, \<open>certInfo.bits || null\<close>, is not null) and under 2048; 20
  when the lower-cased signature algorithm contains \<open>sha1\<close>; 15 when TLSv1 or TLSv1.1 is
  supported; 10 when TLSv1.3 is not. The returned score is that number clamped to the
  range 0 to 100, every applied deduction contributes exactly one vulnerability string,
  in this order, the grade is the threshold function of the returned score, and an input
  that triggers at least the same deductions never scores higher. The conditions are
  stated on the inputs themselves: the day count \<open>daysUntilExpiry\<close> is the least number
  of days that covers the time left.
\<close>

theorem C1_calculateSslGrade:
  "let r = calculateSslGrade now c cfg;
       expired = (valid_to c \<le> now);
       soon = (valid_to c - now \<le> 29 * 86400000);
       weakKey = (\<exists>b. keySize c = Some b \<and> b < 2048);
       sha1 = str_includes (toLowerCase (sigalg c)) ''sha1'';
       oldTls = (''TLSv1'' \<in> set (supportedProtocols cfg) \<or> ''TLSv1.1'' \<in> set (supportedProtocols cfg));
       noTls13 = (''TLSv1.3'' \<notin> set (supportedProtocols cfg))
   in score r = max 0 (100 - (if expired then 50 else if soon then 20 else 0)
                    - (if weakKey then 30 else 0) - (if sha1 then 20 else 0)
                    - (if oldTls then 15 else 0) - (if noTls13 then 10 else 0))
      \<and> 0 \<le> score r \<and> score r \<le> 100
      \<and> vulnerabilities r =
           (if expired then [''Certificate has expired'']
            else if soon then [''Certificate expires soon (less than 30 days)''] else [])
           @ (if weakKey then [''Weak key size (less than 2048 bits)''] else [])
           @ (if sha1 then [''Weak signature algorithm (SHA-1)''] else [])
           @ (if oldTls then [''Supports deprecated TLS versions''] else [])
           @ (if noTls13 then [''TLS 1.3 not supported''] else [])
      \<and> length (vulnerabilities r) =
           (if expired \<or> soon then 1 else 0) + (if weakKey then 1 else 0) + (if sha1 then 1 else 0)
           + (if oldTls then 1 else 0) + (if noTls13 then 1 else 0)
      \<and> grade r =
           (if score r \<ge> 95 then ''A+'' else if score r \<ge> 90 then ''A''
            else if score r \<ge> 80 then ''B'' else if score r \<ge> 70 then ''C''
            else if score r \<ge> 60 then ''D'' else ''F'')
      \<and> (\<forall>now' c' cfg'.
            (expired \<longrightarrow> valid_to c' \<le> now') \<and>
            (soon \<longrightarrow> valid_to c' - now' \<le> 29 * 86400000) \<and>
            (weakKey \<longrightarrow> (\<exists>b. keySize c' = Some b \<and> b < 2048)) \<and>
            (sha1 \<longrightarrow> str_includes (toLowerCase (sigalg c')) ''sha1'') \<and>
            (oldTls \<longrightarrow> ''TLSv1'' \<in> set (supportedProtocols cfg')
                          \<or> ''TLSv1.1'' \<in> set (supportedProtocols cfg')) \<and>
            (noTls13 \<longrightarrow> ''TLSv1.3'' \<notin> set (supportedProtocols cfg'))
            \<longrightarrow> score (calculateSslGrade now' c' cfg') \<le> score r)
      \<and> (daysUntilExpiry (valid_to c) now < 30) = soon
      \<and> 86400000 * (daysUntilExpiry (valid_to c) now - 1) < valid_to c - now
      \<and> valid_to c - now \<le> 86400000 * daysUntilExpiry (valid_to c) now"
proof -
  have sc: "score (calculateSslGrade n x y) = max 0 (100 - (if valid_to x \<le> n then 50 else if valid_to x - n \<le> 29 * 86400000 then 20 else 0)
                 - (if (\<exists>b. keySize x = Some b \<and> b < 2048) then 30 else 0)
                 - (if str_includes (toLowerCase (sigalg x)) ''sha1'' then 20 else 0)
                 - (if ''TLSv1'' \<in> set (supportedProtocols y) \<or> ''TLSv1.1'' \<in> set (supportedProtocols y) then 15 else 0)
                 - (if ''TLSv1.3'' \<notin> set (supportedProtocols y) then 10 else 0))" for n x y
    by (simp only: ssl_closed Let_def SSLLabsGrade.simps)
  have up: "score (calculateSslGrade now c cfg) \<le> 100"
    unfolding sc using deductions_le by (simp only: max.bounded_iff) simp
  have lo: "0 \<le> score (calculateSslGrade now c cfg)"
    unfolding sc by simp
  have vu: "vulnerabilities (calculateSslGrade now c cfg) =
           (if valid_to c \<le> now then [''Certificate has expired'']
            else if valid_to c - now \<le> 29 * 86400000 then [''Certificate expires soon (less than 30 days)''] else [])
           @ (if (\<exists>b. keySize c = Some b \<and> b < 2048) then [''Weak key size (less than 2048 bits)''] else [])
           @ (if str_includes (toLowerCase (sigalg c)) ''sha1'' then [''Weak signature algorithm (SHA-1)''] else [])
           @ (if ''TLSv1'' \<in> set (supportedProtocols cfg) \<or> ''TLSv1.1'' \<in> set (supportedProtocols cfg) then [''Supports deprecated TLS versions''] else [])
           @ (if ''TLSv1.3'' \<notin> set (supportedProtocols cfg) then [''TLS 1.3 not supported''] else [])"
    by (simp only: ssl_closed Let_def SSLLabsGrade.simps)
  have gr: "grade (calculateSslGrade now c cfg) =
           (if score (calculateSslGrade now c cfg) \<ge> 95 then ''A+'' else if score (calculateSslGrade now c cfg) \<ge> 90 then ''A''
            else if score (calculateSslGrade now c cfg) \<ge> 80 then ''B'' else if score (calculateSslGrade now c cfg) \<ge> 70 then ''C''
            else if score (calculateSslGrade now c cfg) \<ge> 60 then ''D'' else ''F'')"
    unfolding sc grade_clamp by (simp only: ssl_closed Let_def SSLLabsGrade.simps)
  have mono: "score (calculateSslGrade now' c' cfg') \<le> score (calculateSslGrade now c cfg)"
    if "valid_to c \<le> now \<longrightarrow> valid_to c' \<le> now'"
      and "valid_to c - now \<le> 29 * 86400000 \<longrightarrow> valid_to c' - now' \<le> 29 * 86400000"
      and "(\<exists>b. keySize c = Some b \<and> b < 2048) \<longrightarrow> (\<exists>b. keySize c' = Some b \<and> b < 2048)"
      and "str_includes (toLowerCase (sigalg c)) ''sha1'' \<longrightarrow> str_includes (toLowerCase (sigalg c')) ''sha1''"
      and "''TLSv1'' \<in> set (supportedProtocols cfg) \<or> ''TLSv1.1'' \<in> set (supportedProtocols cfg)
           \<longrightarrow> ''TLSv1'' \<in> set (supportedProtocols cfg') \<or> ''TLSv1.1'' \<in> set (supportedProtocols cfg')"
      and "''TLSv1.3'' \<notin> set (supportedProtocols cfg) \<longrightarrow> ''TLSv1.3'' \<notin> set (supportedProtocols cfg')"
    for now' c' cfg'
    unfolding sc using deductions_mono[OF that] by (rule max.mono[OF order_refl])
  note ce = daysUntilExpiry_ceiling[of "valid_to c" now]
  show ?thesis
    unfolding Let_def
    apply (intro conjI allI impI)
    subgoal by (rule sc)
    subgoal by (rule lo)
    subgoal by (rule up)
    subgoal by (rule vu)
    subgoal unfolding vu by (rule length_ifs)
    subgoal by (rule gr)
    subgoal for now' c' cfg' by (rule mono) blast+
    subgoal by (rule daysUntilExpiry_lt_30)
    subgoal by (rule ce[THEN conjunct1])
    subgoal by (rule ce[THEN conjunct2])
    done
qed

text \<open>
  The theorem at the boundary of the 20-point deduction: a certificate with exactly 29
  days left scores 80 with grade B and the one vulnerability, a certificate with one
  millisecond more scores 100 with grade A+ and none; and a certificate that also has a
  1024-bit key, a SHA-1 signature and is served over TLSv1 without TLSv1.3 does not
  score higher than the first.
\<close>

theorem C1_calculateSslGrade_witness:
  "score (calculateSslGrade 0
       \<lparr>subject = FieldAbsent, issuer = FieldAbsent, valid_to = 2505600000,
        sigalg = ''RSA-SHA256'', bits = Some 2048\<rparr>
       \<lparr>supportedProtocols = [''TLSv1.3'', ''TLSv1.2''], supportedCiphers = []\<rparr>) = 80
   \<and> grade (calculateSslGrade 0
       \<lparr>subject = FieldAbsent, issuer = FieldAbsent, valid_to = 2505600000,
        sigalg = ''RSA-SHA256'', bits = Some 2048\<rparr>
       \<lparr>supportedProtocols = [''TLSv1.3'', ''TLSv1.2''], supportedCiphers = []\<rparr>) = ''B''
   \<and> vulnerabilities (calculateSslGrade 0
       \<lparr>subject = FieldAbsent, issuer = FieldAbsent, valid_to = 2505600000,
        sigalg = ''RSA-SHA256'', bits = Some 2048\<rparr>
       \<lparr>supportedProtocols = [''TLSv1.3'', ''TLSv1.2''], supportedCiphers = []\<rparr>)
       = [''Certificate expires soon (less than 30 days)'']
   \<and> daysUntilExpiry 2505600000 0 = 29
   \<and> score (calculateSslGrade 0
       \<lparr>subject = FieldAbsent, issuer = FieldAbsent, valid_to = 2505600001,
        sigalg = ''RSA-SHA256'', bits = Some 2048\<rparr>
       \<lparr>supportedProtocols = [''TLSv1.3'', ''TLSv1.2''], supportedCiphers = []\<rparr>) = 100
   \<and> grade (calculateSslGrade 0
       \<lparr>subject = FieldAbsent, issuer = FieldAbsent, valid_to = 2505600001,
        sigalg = ''RSA-SHA256'', bits = Some 2048\<rparr>
       \<lparr>supportedProtocols = [''TLSv1.3'', ''TLSv1.2''], supportedCiphers = []\<rparr>) = ''A+''
   \<and> vulnerabilities (calculateSslGrade 0
       \<lparr>subject = FieldAbsent, issuer = FieldAbsent, valid_to = 2505600001,
        sigalg = ''RSA-SHA256'', bits = Some 2048\<rparr>
       \<lparr>supportedProtocols = [''TLSv1.3'', ''TLSv1.2''], supportedCiphers = []\<rparr>) = []
   \<and> daysUntilExpiry 2505600001 0 = 30
   \<and> score (calculateSslGrade 0
       \<lparr>subject = FieldAbsent, issuer = FieldAbsent, valid_to = 864000000,
        sigalg = ''sha1WithRSAEncryption'', bits = Some 1024\<rparr>
       \<lparr>supportedProtocols = [''TLSv1.2'', ''TLSv1''], supportedCiphers = []\<rparr>)
     \<le> score (calculateSslGrade 0
       \<lparr>subject = FieldAbsent, issuer = FieldAbsent, valid_to = 2505600000,
        sigalg = ''RSA-SHA256'', bits = Some 2048\<rparr>
       \<lparr>supportedProtocols = [''TLSv1.3'', ''TLSv1.2''], supportedCiphers = []\<rparr>)"
proof -
  let ?c = "\<lparr>subject = FieldAbsent, issuer = FieldAbsent, valid_to = 2505600000,
        sigalg = ''RSA-SHA256'', bits = Some 2048\<rparr>"
  let ?d = "\<lparr>subject = FieldAbsent, issuer = FieldAbsent, valid_to = 2505600001,
        sigalg = ''RSA-SHA256'', bits = Some 2048\<rparr>"
  let ?cfg = "\<lparr>supportedProtocols = [''TLSv1.3'', ''TLSv1.2''], supportedCiphers = []\<rparr>"
  let ?c' = "\<lparr>subject = FieldAbsent, issuer = FieldAbsent, valid_to = 864000000,
        sigalg = ''sha1WithRSAEncryption'', bits = Some 1024\<rparr>"
  let ?cfg' = "\<lparr>supportedProtocols = [''TLSv1.2'', ''TLSv1''], supportedCiphers = []\<rparr>"
  note t = C1_calculateSslGrade[of 0 ?c ?cfg, unfolded Let_def]
  note sc = t[THEN conjunct1]
  note vu = t[THEN conjunct2, THEN conjunct2, THEN conjunct2, THEN conjunct1]
  note gr = t[THEN conjunct2, THEN conjunct2, THEN conjunct2, THEN conjunct2, THEN conjunct2,
              THEN conjunct1]
  note mo = t[THEN conjunct2, THEN conjunct2, THEN conjunct2, THEN conjunct2, THEN conjunct2,
              THEN conjunct2, THEN conjunct1,
              THEN spec, of 0, THEN spec, of ?c', THEN spec, of ?cfg', THEN mp]
  note lo = t[THEN conjunct2, THEN conjunct2, THEN conjunct2, THEN conjunct2, THEN conjunct2,
              THEN conjunct2, THEN conjunct2, THEN conjunct2, THEN conjunct1]
  note hi = t[THEN conjunct2, THEN conjunct2, THEN conjunct2, THEN conjunct2, THEN conjunct2,
              THEN conjunct2, THEN conjunct2, THEN conjunct2, THEN conjunct2]
  note u = C1_calculateSslGrade[of 0 ?d ?cfg, unfolded Let_def]
  note sc' = u[THEN conjunct1]
  note vu' = u[THEN conjunct2, THEN conjunct2, THEN conjunct2, THEN conjunct1]
  note gr' = u[THEN conjunct2, THEN conjunct2, THEN conjunct2, THEN conjunct2, THEN conjunct2,
              THEN conjunct1]
  note lo' = u[THEN conjunct2, THEN conjunct2, THEN conjunct2, THEN conjunct2, THEN conjunct2,
              THEN conjunct2, THEN conjunct2, THEN conjunct2, THEN conjunct1]
  note hi' = u[THEN conjunct2, THEN conjunct2, THEN conjunct2, THEN conjunct2, THEN conjunct2,
              THEN conjunct2, THEN conjunct2, THEN conjunct2, THEN conjunct2]
  have e: "\<not> str_includes (toLowerCase ''RSA-SHA256'') ''sha1''"
          "str_includes (toLowerCase ''sha1WithRSAEncryption'') ''sha1''"
    by code_simp+
  have s: "score (calculateSslGrade 0 ?c ?cfg) = 80"
    by (subst sc) (simp add: keySize_def truthy_num_def e)
  have g: "grade (calculateSslGrade 0 ?c ?cfg) = ''B''"
    by (subst gr) (simp add: s)
  have v: "vulnerabilities (calculateSslGrade 0 ?c ?cfg)
             = [''Certificate expires soon (less than 30 days)'']"
    by (subst vu) (simp add: keySize_def truthy_num_def e)
  have n: "daysUntilExpiry 2505600000 0 = 29"
    using lo hi by simp
  have s': "score (calculateSslGrade 0 ?d ?cfg) = 100"
    by (subst sc') (simp add: keySize_def truthy_num_def e)
  have g': "grade (calculateSslGrade 0 ?d ?cfg) = ''A+''"
    by (subst gr') (simp add: s')
  have v': "vulnerabilities (calculateSslGrade 0 ?d ?cfg) = []"
    by (subst vu') (simp add: keySize_def truthy_num_def e)
  have n': "daysUntilExpiry 2505600001 0 = 30"
    using lo' hi' by simp
  have m: "score (calculateSslGrade 0 ?c' ?cfg') \<le> score (calculateSslGrade 0 ?c ?cfg)"
    by (rule mo) (simp add: keySize_def truthy_num_def e)
  show ?thesis using s g v n s' g' v' n' m by blast
qed

text \<open>
  The claim's own wording of the 20-point condition, "expires in fewer than 30 days",
  read on the time values (\<open>spec_expiresInFewerThan30Days\<close>), does not describe the code:
  a certificate that is valid for another 29 days and 12 hours expires in fewer than 30
  days, yet its day count is 30 and nothing is deducted. With a 2048-bit key, a SHA-256
  signature and TLSv1.3 and TLSv1.2 supported it scores 100 with grade A+ and no
  vulnerability, where the claim's wording gives 80.
\<close>

theorem C1_fewer_than_30_days_counterexample:
  "spec_expiresInFewerThan30Days 0
       \<lparr>subject = FieldAbsent, issuer = FieldAbsent, valid_to = 2548800000,
        sigalg = ''RSA-SHA256'', bits = Some 2048\<rparr>
   \<and> daysUntilExpiry 2548800000 0 = 30
   \<and> calculateSslGrade 0
       \<lparr>subject = FieldAbsent, issuer = FieldAbsent, valid_to = 2548800000,
        sigalg = ''RSA-SHA256'', bits = Some 2048\<rparr>
       \<lparr>supportedProtocols = [''TLSv1.3'', ''TLSv1.2''], supportedCiphers = []\<rparr>
     = \<lparr>grade = ''A+'', score = 100, vulnerabilities = []\<rparr>"
proof -
  have e: "\<not> str_includes (toLowerCase ''RSA-SHA256'') ''sha1''"
    by code_simp
  have 1: "spec_expiresInFewerThan30Days 0
       \<lparr>subject = FieldAbsent, issuer = FieldAbsent, valid_to = 2548800000,
        sigalg = ''RSA-SHA256'', bits = Some 2048\<rparr>"
    by (simp add: spec_expiresInFewerThan30Days_def)
  have 2: "daysUntilExpiry 2548800000 0 = 30"
    by (simp add: daysUntilExpiry_def)
  have 3: "calculateSslGrade 0
       \<lparr>subject = FieldAbsent, issuer = FieldAbsent, valid_to = 2548800000,
        sigalg = ''RSA-SHA256'', bits = Some 2048\<rparr>
       \<lparr>supportedProtocols = [''TLSv1.3'', ''TLSv1.2''], supportedCiphers = []\<rparr>
     = \<lparr>grade = ''A+'', score = 100, vulnerabilities = []\<rparr>"
    by (subst ssl_closed) (simp add: keySize_def truthy_num_def e)
  show ?thesis using 1 2 3 by blast
qed

section \<open>Properties of the header scoring\<close>

lemma if_sub1: "(if c then s - n else s) = s - (if c then n else (0::int))"
  by simp

lemma if_sub2: "(if c then s - n else s - m) = s - (if c then n else (m::int))"
  by simp

lemma if_sub3: "(if c then s - n else s - x - y - z) = s - (if c then n else x + y + (z::int))"
  by simp

lemma header_closed:
  "calculateSecurityScore a =
    (let raw = 100
          - (if \<not> hstsPresent a then 20
             else (if \<not> truthy_num (hsts_maxAge (the (hsts a))) \<or> the (hsts_maxAge (the (hsts a))) < 31536000 then 5 else 0)
                + (if \<not> truthy_bool (hsts_includeSubDomains (the (hsts a))) then 3 else 0)
                + (if \<not> truthy_bool (hsts_preload (the (hsts a))) then 2 else 0))
          - (if \<not> cspPresent a then 25
             else (if truthy_bool (csp_hasUnsafeInline (the (csp a))) then 8 else 0)
                + (if truthy_bool (csp_hasUnsafeEval (the (csp a))) then 7 else 0)
                + (if length (csp_directives (the (csp a))) < 3 then 5 else 0))
          - (if \<not> truthy_str (xFrameOptions a) then 15
             else if toLowerCase (the (xFrameOptions a)) = ''allowall'' then 10 else 0)
          - (if \<not> truthy_str (xContentTypeOptions a)
                \<or> toLowerCase (the (xContentTypeOptions a)) \<noteq> ''nosniff'' then 10 else 0)
          - (if \<not> truthy_str (xXSSProtection a) then 10
             else if the (xXSSProtection a) = ''0'' then 5 else 0)
          - (if \<not> truthy_str (referrerPolicy a) then 8
             else if toLowerCase (the (referrerPolicy a)) \<in> set [''unsafe-url'', ''no-referrer-when-downgrade''] then 4 else 0)
          - (if \<not> truthy_str (crossOriginEmbedderPolicy a) then 4 else 0)
          - (if \<not> truthy_str (crossOriginOpenerPolicy a) then 4 else 0)
          - (if \<not> truthy_str (crossOriginResourcePolicy a) then 4 else 0);
         score = max 0 raw
     in (score,
         if score \<ge> 95 then ''A+'' else if score \<ge> 85 then ''A'' else if score \<ge> 75 then ''B''
         else if score \<ge> 65 then ''C'' else if score \<ge> 50 then ''D'' else ''F''))"
  unfolding calculateSecurityScore_def
  apply (simp only: if_sub1)
  apply (simp only: Let_def)
  apply (simp only: if_sub2 if_sub3)
  done


lemma move_xfo:
  "x - dh - dc - dx - dt - ds - dr - de - d0 - dp = (x - dh - dc - dt - ds - dr - de - d0 - dp) - (dx::int)"
  by simp

lemma xfo_update:
  "hsts (a\<lparr>xFrameOptions := x\<rparr>) = hsts a"
  "csp (a\<lparr>xFrameOptions := x\<rparr>) = csp a"
  "xFrameOptions (a\<lparr>xFrameOptions := x\<rparr>) = x"
  "xContentTypeOptions (a\<lparr>xFrameOptions := x\<rparr>) = xContentTypeOptions a"
  "xXSSProtection (a\<lparr>xFrameOptions := x\<rparr>) = xXSSProtection a"
  "referrerPolicy (a\<lparr>xFrameOptions := x\<rparr>) = referrerPolicy a"
  "crossOriginEmbedderPolicy (a\<lparr>xFrameOptions := x\<rparr>) = crossOriginEmbedderPolicy a"
  "crossOriginOpenerPolicy (a\<lparr>xFrameOptions := x\<rparr>) = crossOriginOpenerPolicy a"
  "crossOriginResourcePolicy (a\<lparr>xFrameOptions := x\<rparr>) = crossOriginResourcePolicy a"
  by simp_all

lemma xfo_dependence:
  "\<exists>R. \<forall>x. fst (calculateSecurityScore (a\<lparr>xFrameOptions := x\<rparr>)) =
     max 0 (R - (if \<not> truthy_str x then 15 else if toLowerCase (the x) = ''allowall'' then 10 else 0))"
  apply (rule exI, rule allI)
  apply (simp only: header_closed Let_def fst_conv xfo_update hstsPresent_def cspPresent_def move_xfo)
  done

lemma pushIf_set: "set (pushIf c x xs) = (if c then insert x (set xs) else set xs)"
  by (simp add: pushIf_def)

lemma DENY_strong: "truthy_str (Some ''DENY'')" "toLowerCase ''DENY'' \<noteq> ''allowall''"
  by code_simp+

text \<open>
  Claim C10. When the stored X-Frame-Options value is any case variant of ALLOWALL (it
  lower-cases to \<open>allowall\<close>), the score carries the 10-point deduction: it is the score
  of the same analysis with a harmless X-Frame-Options value, less 10, clamped at 0. The
  report \<open>X-Frame-Options set to ALLOWALL\<close> is in \<open>weakHeaders\<close> exactly when the value is
  the upper-case string \<open>ALLOWALL\<close>, so a lower-case value is penalised but not reported.
\<close>

theorem C10_allowall_inconsistency:
  "xFrameOptions a = Some v \<and> toLowerCase v = ''allowall'' \<longrightarrow>
     fst (calculateSecurityScore a)
       = max 0 (fst (calculateSecurityScore (a\<lparr>xFrameOptions := Some ''DENY''\<rparr>)) - 10)
     \<and> (''X-Frame-Options set to ALLOWALL'' \<in> set (weakHeaders (identifyIssues a))
          \<longleftrightarrow> v = ''ALLOWALL'')"
proof (intro impI, elim conjE)
  assume v: "xFrameOptions a = Some v" and l: "toLowerCase v = ''allowall''"
  from l have ne: "v \<noteq> []" by (auto simp: toLowerCase_def)
  obtain R where R: "\<And>x. fst (calculateSecurityScore (a\<lparr>xFrameOptions := x\<rparr>)) =
     max 0 (R - (if \<not> truthy_str x then 15 else if toLowerCase (the x) = ''allowall'' then 10 else 0))"
    using xfo_dependence[of a] by blast
  have a: "a\<lparr>xFrameOptions := Some v\<rparr> = a" using v by simp
  have 1: "fst (calculateSecurityScore a) = max 0 (R - 10)"
    using R[of "Some v"] l ne unfolding a by (simp add: truthy_str_def)
  have 2: "fst (calculateSecurityScore (a\<lparr>xFrameOptions := Some ''DENY''\<rparr>)) = max 0 R"
    using R[of "Some ''DENY''"] DENY_strong by simp
  have s: "fst (calculateSecurityScore a)
       = max 0 (fst (calculateSecurityScore (a\<lparr>xFrameOptions := Some ''DENY''\<rparr>)) - 10)"
    unfolding 1 2 by simp
  have w: "''X-Frame-Options set to ALLOWALL'' \<in> set (weakHeaders (identifyIssues a))
          \<longleftrightarrow> v = ''ALLOWALL''"
    unfolding identifyIssues_def Let_def
    by (simp add: pushIf_set v)
  show "fst (calculateSecurityScore a)
       = max 0 (fst (calculateSecurityScore (a\<lparr>xFrameOptions := Some ''DENY''\<rparr>)) - 10)
     \<and> (''X-Frame-Options set to ALLOWALL'' \<in> set (weakHeaders (identifyIssues a))
          \<longleftrightarrow> v = ''ALLOWALL'')"
    using s w by blast
qed


text \<open>
  The theorem at the value \<open>allowall\<close>: the score drops from 43 to 33 and the report is
  absent from \<open>weakHeaders\<close>.
\<close>

theorem C10_allowall_inconsistency_witness:
  "fst (calculateSecurityScore
      \<lparr>hsts = None, csp = None, xFrameOptions = Some ''allowall'',
       xContentTypeOptions = Some ''nosniff'', xXSSProtection = Some ''1; mode=block'',
       referrerPolicy = Some ''no-referrer'', permissionsPolicy = None, expectCT = None,
       crossOriginEmbedderPolicy = None, crossOriginOpenerPolicy = None,
       crossOriginResourcePolicy = None\<rparr>) = 33
   \<and> ''X-Frame-Options set to ALLOWALL'' \<notin> set (weakHeaders (identifyIssues
      \<lparr>hsts = None, csp = None, xFrameOptions = Some ''allowall'',
       xContentTypeOptions = Some ''nosniff'', xXSSProtection = Some ''1; mode=block'',
       referrerPolicy = Some ''no-referrer'', permissionsPolicy = None, expectCT = None,
       crossOriginEmbedderPolicy = None, crossOriginOpenerPolicy = None,
       crossOriginResourcePolicy = None\<rparr>))"
proof -
  let ?a = "\<lparr>hsts = None, csp = None, xFrameOptions = Some ''allowall'',
       xContentTypeOptions = Some ''nosniff'', xXSSProtection = Some ''1; mode=block'',
       referrerPolicy = Some ''no-referrer'', permissionsPolicy = None, expectCT = None,
       crossOriginEmbedderPolicy = None, crossOriginOpenerPolicy = None,
       crossOriginResourcePolicy = None\<rparr>"
  have l: "toLowerCase ''allowall'' = ''allowall''" by code_simp
  have d: "fst (calculateSecurityScore (?a\<lparr>xFrameOptions := Some ''DENY''\<rparr>)) = 43"
    by code_simp
  have h: "xFrameOptions ?a = Some ''allowall'' \<and> toLowerCase ''allowall'' = ''allowall''"
    using l by simp
  note t = C10_allowall_inconsistency[of ?a "''allowall''", THEN mp, OF h]
  have 1: "fst (calculateSecurityScore ?a) = 33"
    using t[THEN conjunct1] unfolding d by simp
  have 2: "''X-Frame-Options set to ALLOWALL'' \<notin> set (weakHeaders (identifyIssues ?a))"
    using t[THEN conjunct2] by simp
  show ?thesis using 1 2 by (rule conjI)
qed

text \<open>
  Claim C2. An analysis in which all nine scored headers are present and maximally strong
  scores 100 with grade A+: HSTS present with max-age at least 31536000, includeSubDomains
  and preload; CSP present with at least three directives and neither unsafe flag;
  X-Frame-Options with a value that is not ALLOWALL in any case; X-Content-Type-Options
  equal to nosniff (in any case); X-XSS-Protection with a value other than \<open>0\<close>;
  Referrer-Policy with a value that is neither unsafe-url nor no-referrer-when-downgrade;
  the three Cross-Origin headers with a value. A header is present when the analysis holds
  a non-empty value for it: that is the test the code applies (\<open>!analysis.xFrameOptions\<close>).
  An analysis in which none of the nine is present scores 0 with grade F, and
  \<open>missingHeaders\<close> lists the nine header names.
\<close>

theorem C2_header_scoring:
  "(hsts a = Some h \<and> hsts_present h \<and> hsts_maxAge h = Some m \<and> m \<ge> 31536000
      \<and> hsts_includeSubDomains h = Some True \<and> hsts_preload h = Some True
    \<and> csp a = Some p \<and> csp_present p \<and> length (csp_directives p) \<ge> 3
      \<and> \<not> truthy_bool (csp_hasUnsafeInline p) \<and> \<not> truthy_bool (csp_hasUnsafeEval p)
    \<and> xFrameOptions a = Some xfo \<and> xfo \<noteq> [] \<and> toLowerCase xfo \<noteq> ''allowall''
    \<and> xContentTypeOptions a = Some xcto \<and> toLowerCase xcto = ''nosniff''
    \<and> xXSSProtection a = Some xxp \<and> xxp \<noteq> [] \<and> xxp \<noteq> ''0''
    \<and> referrerPolicy a = Some rp \<and> rp \<noteq> [] \<and> toLowerCase rp \<noteq> ''unsafe-url''
      \<and> toLowerCase rp \<noteq> ''no-referrer-when-downgrade''
    \<and> truthy_str (crossOriginEmbedderPolicy a) \<and> truthy_str (crossOriginOpenerPolicy a)
    \<and> truthy_str (crossOriginResourcePolicy a)
    \<longrightarrow> calculateSecurityScore a = (100, ''A+''))
   \<and> (\<not> hstsPresent a \<and> \<not> cspPresent a \<and> \<not> truthy_str (xFrameOptions a)
    \<and> \<not> truthy_str (xContentTypeOptions a) \<and> \<not> truthy_str (xXSSProtection a)
    \<and> \<not> truthy_str (referrerPolicy a) \<and> \<not> truthy_str (crossOriginEmbedderPolicy a)
    \<and> \<not> truthy_str (crossOriginOpenerPolicy a) \<and> \<not> truthy_str (crossOriginResourcePolicy a)
    \<longrightarrow> calculateSecurityScore a = (0, ''F'')
      \<and> missingHeaders (identifyIssues a) =
          [''Strict-Transport-Security'', ''Content-Security-Policy'', ''X-Frame-Options'',
           ''X-Content-Type-Options'', ''X-XSS-Protection'', ''Referrer-Policy'',
           ''Cross-Origin-Embedder-Policy'', ''Cross-Origin-Opener-Policy'',
           ''Cross-Origin-Resource-Policy''])"
proof (intro conjI impI; elim conjE)
  assume "hsts a = Some h" "hsts_present h" "hsts_maxAge h = Some m" "m \<ge> 31536000"
    "hsts_includeSubDomains h = Some True" "hsts_preload h = Some True"
    "csp a = Some p" "csp_present p" "length (csp_directives p) \<ge> 3"
    "\<not> truthy_bool (csp_hasUnsafeInline p)" "\<not> truthy_bool (csp_hasUnsafeEval p)"
    "xFrameOptions a = Some xfo" "xfo \<noteq> []" "toLowerCase xfo \<noteq> ''allowall''"
    "xContentTypeOptions a = Some xcto" "toLowerCase xcto = ''nosniff''"
    "xXSSProtection a = Some xxp" "xxp \<noteq> []" "xxp \<noteq> ''0''"
    "referrerPolicy a = Some rp" "rp \<noteq> []" "toLowerCase rp \<noteq> ''unsafe-url''"
    "toLowerCase rp \<noteq> ''no-referrer-when-downgrade''"
    "truthy_str (crossOriginEmbedderPolicy a)" "truthy_str (crossOriginOpenerPolicy a)"
    "truthy_str (crossOriginResourcePolicy a)"
  moreover from \<open>toLowerCase xcto = ''nosniff''\<close> have "xcto \<noteq> []"
    by (auto simp: toLowerCase_def)
  ultimately show "calculateSecurityScore a = (100, ''A+'')"
    unfolding header_closed Let_def
    by (simp add: hstsPresent_def cspPresent_def truthy_num_def truthy_bool_def truthy_str_def)
next
  assume "\<not> hstsPresent a" "\<not> cspPresent a" "\<not> truthy_str (xFrameOptions a)"
    "\<not> truthy_str (xContentTypeOptions a)" "\<not> truthy_str (xXSSProtection a)"
    "\<not> truthy_str (referrerPolicy a)" "\<not> truthy_str (crossOriginEmbedderPolicy a)"
    "\<not> truthy_str (crossOriginOpenerPolicy a)" "\<not> truthy_str (crossOriginResourcePolicy a)"
  then show "calculateSecurityScore a = (0, ''F'')"
    unfolding header_closed Let_def by simp
next
  assume "\<not> hstsPresent a" "\<not> cspPresent a" "\<not> truthy_str (xFrameOptions a)"
    "\<not> truthy_str (xContentTypeOptions a)" "\<not> truthy_str (xXSSProtection a)"
    "\<not> truthy_str (referrerPolicy a)" "\<not> truthy_str (crossOriginEmbedderPolicy a)"
    "\<not> truthy_str (crossOriginOpenerPolicy a)" "\<not> truthy_str (crossOriginResourcePolicy a)"
  then show "missingHeaders (identifyIssues a) =
          [''Strict-Transport-Security'', ''Content-Security-Policy'', ''X-Frame-Options'',
           ''X-Content-Type-Options'', ''X-XSS-Protection'', ''Referrer-Policy'',
           ''Cross-Origin-Embedder-Policy'', ''Cross-Origin-Opener-Policy'',
           ''Cross-Origin-Resource-Policy'']"
    unfolding identifyIssues_def Let_def by (simp add: pushIf_def)
qed


text \<open>
  The theorem at a fully hardened analysis, and at the analysis \<open>analyzeHeaders\<close> builds
  for a response with no security header.
\<close>

theorem C2_header_scoring_witness:
  "calculateSecurityScore
     \<lparr>hsts = Some \<lparr>hsts_present = True, hsts_maxAge = Some 31536000,
              hsts_includeSubDomains = Some True, hsts_preload = Some True,
              hsts_value = Some ''max-age=31536000; includeSubDomains; preload''\<rparr>,
      csp = Some \<lparr>csp_present = True,
              csp_directives = [''default-src https:'', ''img-src *'', ''object-src data:''],
              csp_value = Some ''default-src https:; img-src *; object-src data:'',
              csp_hasUnsafeInline = Some False, csp_hasUnsafeEval = Some False\<rparr>,
      xFrameOptions = Some ''DENY'', xContentTypeOptions = Some ''nosniff'',
      xXSSProtection = Some ''1; mode=block'', referrerPolicy = Some ''no-referrer'',
      permissionsPolicy = None, expectCT = None,
      crossOriginEmbedderPolicy = Some ''require-corp'',
      crossOriginOpenerPolicy = Some ''same-origin'',
      crossOriginResourcePolicy = Some ''same-origin''\<rparr> = (100, ''A+'')
   \<and> calculateSecurityScore
     \<lparr>hsts = Some \<lparr>hsts_present = False, hsts_maxAge = None, hsts_includeSubDomains = None,
              hsts_preload = None, hsts_value = None\<rparr>,
      csp = Some \<lparr>csp_present = False, csp_directives = [], csp_value = None,
              csp_hasUnsafeInline = None, csp_hasUnsafeEval = None\<rparr>,
      xFrameOptions = None, xContentTypeOptions = None, xXSSProtection = None,
      referrerPolicy = None, permissionsPolicy = None,
      expectCT = Some \<lparr>ect_present = False, ect_maxAge = None, ect_enforce = None,
                  ect_reportUri = None, ect_value = None\<rparr>,
      crossOriginEmbedderPolicy = None, crossOriginOpenerPolicy = None,
      crossOriginResourcePolicy = None\<rparr> = (0, ''F'')
   \<and> length (missingHeaders (identifyIssues
     \<lparr>hsts = Some \<lparr>hsts_present = False, hsts_maxAge = None, hsts_includeSubDomains = None,
              hsts_preload = None, hsts_value = None\<rparr>,
      csp = Some \<lparr>csp_present = False, csp_directives = [], csp_value = None,
              csp_hasUnsafeInline = None, csp_hasUnsafeEval = None\<rparr>,
      xFrameOptions = None, xContentTypeOptions = None, xXSSProtection = None,
      referrerPolicy = None, permissionsPolicy = None,
      expectCT = Some \<lparr>ect_present = False, ect_maxAge = None, ect_enforce = None,
                  ect_reportUri = None, ect_value = None\<rparr>,
      crossOriginEmbedderPolicy = None, crossOriginOpenerPolicy = None,
      crossOriginResourcePolicy = None\<rparr>)) = 9"
proof -
  let ?h = "\<lparr>hsts_present = True, hsts_maxAge = Some 31536000,
              hsts_includeSubDomains = Some True, hsts_preload = Some True,
              hsts_value = Some ''max-age=31536000; includeSubDomains; preload''\<rparr>"
  let ?p = "\<lparr>csp_present = True,
              csp_directives = [''default-src https:'', ''img-src *'', ''object-src data:''],
              csp_value = Some ''default-src https:; img-src *; object-src data:'',
              csp_hasUnsafeInline = Some False, csp_hasUnsafeEval = Some False\<rparr>"
  let ?strong = "\<lparr>hsts = Some ?h, csp = Some ?p,
      xFrameOptions = Some ''DENY'', xContentTypeOptions = Some ''nosniff'',
      xXSSProtection = Some ''1; mode=block'', referrerPolicy = Some ''no-referrer'',
      permissionsPolicy = None, expectCT = None,
      crossOriginEmbedderPolicy = Some ''require-corp'',
      crossOriginOpenerPolicy = Some ''same-origin'',
      crossOriginResourcePolicy = Some ''same-origin''\<rparr>"
  let ?none = "\<lparr>hsts = Some \<lparr>hsts_present = False, hsts_maxAge = None, hsts_includeSubDomains = None,
              hsts_preload = None, hsts_value = None\<rparr>,
      csp = Some \<lparr>csp_present = False, csp_directives = [], csp_value = None,
              csp_hasUnsafeInline = None, csp_hasUnsafeEval = None\<rparr>,
      xFrameOptions = None, xContentTypeOptions = None, xXSSProtection = None,
      referrerPolicy = None, permissionsPolicy = None,
      expectCT = Some \<lparr>ect_present = False, ect_maxAge = None, ect_enforce = None,
                  ect_reportUri = None, ect_value = None\<rparr>,
      crossOriginEmbedderPolicy = None, crossOriginOpenerPolicy = None,
      crossOriginResourcePolicy = None\<rparr>"
  have low: "toLowerCase ''DENY'' \<noteq> ''allowall''" "toLowerCase ''nosniff'' = ''nosniff''"
    "toLowerCase ''no-referrer'' \<noteq> ''unsafe-url''"
    "toLowerCase ''no-referrer'' \<noteq> ''no-referrer-when-downgrade''"
    by code_simp+
  have 1: "calculateSecurityScore ?strong = (100, ''A+'')"
    by (rule C2_header_scoring[of ?strong ?h 31536000 ?p "''DENY''" "''nosniff''"
          "''1; mode=block''" "''no-referrer''", THEN conjunct1, THEN mp])
       (simp add: low truthy_bool_def truthy_str_def)
  have 2: "calculateSecurityScore ?none = (0, ''F'')
      \<and> missingHeaders (identifyIssues ?none) =
          [''Strict-Transport-Security'', ''Content-Security-Policy'', ''X-Frame-Options'',
           ''X-Content-Type-Options'', ''X-XSS-Protection'', ''Referrer-Policy'',
           ''Cross-Origin-Embedder-Policy'', ''Cross-Origin-Opener-Policy'',
           ''Cross-Origin-Resource-Policy'']"
    by (rule C2_header_scoring[of ?none, THEN conjunct2, THEN mp])
       (simp add: hstsPresent_def cspPresent_def truthy_str_def)
  from 2 have 3: "length (missingHeaders (identifyIssues ?none)) = 9"
    by simp
  show ?thesis using 1 2 3 by blast
qed

section \<open>Properties of the port prober\<close>

lemma promise_settled: "p \<noteq> Pending \<Longrightarrow> resolve v p = p"
  by (cases p) (simp_all add: resolve_def)

lemma onEvent_settled: "promise s \<noteq> Pending \<Longrightarrow> promise (onEvent p ev s) = promise s"
  by (cases ev) (simp_all add: onEvent_def promise_settled)


lemma foldl_settled:
  "promise s \<noteq> Pending \<Longrightarrow> promise (foldl (\<lambda>s ev. onEvent p ev s) s evs) = promise s"
  by (induction evs arbitrary: s) (simp_all add: onEvent_settled)


lemma foldl_not_rejected:
  "(\<forall>e. promise s \<noteq> Rejected e) \<Longrightarrow> promise (foldl (\<lambda>s ev. onEvent p ev s) s evs) \<noteq> Rejected e'"
proof (induction evs arbitrary: s)
  case Nil then show ?case by simp
next
  case (Cons ev evs)
  have "\<forall>e. promise (onEvent p ev s) \<noteq> Rejected e"
    using Cons.prems by (cases ev; cases "promise s") (simp_all add: onEvent_def resolve_def)
  then show ?case using Cons.IH by simp
qed

lemma commonPorts_valid: "p \<in> set commonPorts \<Longrightarrow> validPort p"
  by (auto simp: commonPorts_def validPort_def)

lemma scanPort_valid:
  "validPort p \<Longrightarrow> 0 \<le> t \<Longrightarrow>
     scanPort host p t events =
       foldl (\<lambda>s ev. onEvent p ev s)
         \<lparr>promise = Pending, destroyed = False, timeoutMs = t, connectCalls = 1\<rparr> events"
  by (simp add: scanPort_def)

lemma scanPort_first:
  assumes "validPort p" "0 \<le> t"
  shows "promise (scanPort host p t (ev # evs)) =
     Resolved (case ev of
        Connect \<Rightarrow> \<lparr>port = p, state = ''open'', service = Some (getServiceName p), protocol = ''tcp''\<rparr>
      | Timeout \<Rightarrow> \<lparr>port = p, state = ''filtered'', service = None, protocol = ''tcp''\<rparr>
      | SocketError \<Rightarrow> \<lparr>port = p, state = ''closed'', service = None, protocol = ''tcp''\<rparr>)"
proof -
  let ?s0 = "\<lparr>promise = Pending, destroyed = False, timeoutMs = t, connectCalls = 1\<rparr>"
  have 1: "promise (onEvent p ev ?s0) =
     Resolved (case ev of
        Connect \<Rightarrow> \<lparr>port = p, state = ''open'', service = Some (getServiceName p), protocol = ''tcp''\<rparr>
      | Timeout \<Rightarrow> \<lparr>port = p, state = ''filtered'', service = None, protocol = ''tcp''\<rparr>
      | SocketError \<Rightarrow> \<lparr>port = p, state = ''closed'', service = None, protocol = ''tcp''\<rparr>)"
    by (cases ev) (simp_all add: onEvent_def resolve_def)
  have "promise (foldl (\<lambda>s ev. onEvent p ev s) (onEvent p ev ?s0) evs) = promise (onEvent p ev ?s0)"
    by (rule foldl_settled, subst 1, simp)
  then show ?thesis
    unfolding scanPort_valid[OF assms] foldl_Cons 1 .
qed

text \<open>
  Outside the range of ports and at a negative timeout the executor throws, and the
  promise is rejected whatever the network does: at a negative timeout before
  \<open>socket.connect\<close> is reached, at a port outside 0 to 65535 in \<open>socket.connect\<close>. The
  program itself calls \<open>scanPort\<close> only on the ports of \<open>commonPorts\<close>, with the default
  timeout of 3000 milliseconds.
\<close>

lemma scanPort_rejects_outside:
  "t < 0 \<Longrightarrow> promise (scanPort host p t events) = Rejected ''ERR_OUT_OF_RANGE''
              \<and> connectCalls (scanPort host p t events) = 0"
  "0 \<le> t \<Longrightarrow> \<not> validPort p \<Longrightarrow>
     promise (scanPort host p t events) = Rejected ''ERR_SOCKET_BAD_PORT''
     \<and> connectCalls (scanPort host p t events) = 1"
  by (simp_all add: scanPort_def)



section \<open>Properties of the vulnerability correlator\<close>

lemma analyzeLoop_concat: "analyzeLoop acc rs = acc @ concat (map vulnsOf rs)"
  by (induction rs arbitrary: acc) simp_all

lemma analyzeVulnerabilities_concat: "analyzeVulnerabilities rs = concat (map vulnsOf rs)"
  by (simp add: analyzeVulnerabilities_def analyzeLoop_concat)

lemma analyzeVulnerabilities_append:
  "analyzeVulnerabilities (xs @ ys) = analyzeVulnerabilities xs @ analyzeVulnerabilities ys"
  by (simp add: analyzeVulnerabilities_concat)

lemma vulnsOf_not_open: "state r \<noteq> ''open'' \<Longrightarrow> vulnsOf r = []"
  by (simp add: vulnsOf_def)

lemma vulnsOf_no_entry:
  "port r \<notin> {21, 22, 23, 3306, 5432, 27017, 6379} \<Longrightarrow> vulnsOf r = []"
  by (simp add: vulnsOf_def)

lemma vulnsOf_21:
  "state r = ''open'' \<Longrightarrow> port r = 21 \<Longrightarrow>
     map (\<lambda>v. (title v, severity v)) (vulnsOf r) = [(''FTP Service Detected'', ''high'')]"
  by (simp add: vulnsOf_def)

lemma vulnsOf_22:
  "state r = ''open'' \<Longrightarrow> port r = 22 \<Longrightarrow>
     map (\<lambda>v. (title v, severity v)) (vulnsOf r) = [(''SSH Service Exposed'', ''medium'')]"
  by (simp add: vulnsOf_def)

lemma analyze_filter_open:
  "analyzeVulnerabilities (filter (\<lambda>r. state r = ''open'') rs) = analyzeVulnerabilities rs"
  unfolding analyzeVulnerabilities_concat
  by (induction rs) (simp_all add: vulnsOf_not_open)

lemma mset_pair:
  assumes "mset xs = {#a, b#}"
  shows "xs = [a, b] \<or> xs = [b, a]"
proof -
  from assms have "size (mset xs) = size {#a, b#}" by simp
  then have "length xs = 2" by simp
  then obtain x y where xy: "xs = [x, y]"
    by (auto simp: numeral_2_eq_2 length_Suc_conv)
  with assms have "{#x, y#} = {#a, b#}" by simp
  then have "(x = a \<and> y = b) \<or> (x = b \<and> y = a)"
    by (auto simp: add_eq_conv_ex)
  with xy show ?thesis by auto
qed

text \<open>
  Claim C4. \<open>analyzeVulnerabilities\<close> is a function of the list of findings alone. When the
  open findings are one for port 21 and one for port 22, in either order and with any
  closed or filtered findings among them, it yields exactly two vulnerabilities, FTP
  Service Detected with severity high and SSH Service Exposed with severity medium. A
  finding whose port is not 21, 22, 23, 3306, 5432, 27017 or 6379 yields nothing, alone
  or inside a list; the result follows the order of the input; and a list with no open
  finding, the empty list among them, yields the empty list.
\<close>

theorem C4_analyzeVulnerabilities:
  "(mset (map port (filter (\<lambda>r. state r = ''open'') rs)) = {#21, 22#} \<longrightarrow>
      length (analyzeVulnerabilities rs) = 2
      \<and> mset (map (\<lambda>v. (title v, severity v)) (analyzeVulnerabilities rs))
          = {#(''FTP Service Detected'', ''high''), (''SSH Service Exposed'', ''medium'')#})
   \<and> (port r \<notin> {21, 22, 23, 3306, 5432, 27017, 6379} \<longrightarrow>
        analyzeVulnerabilities [r] = []
        \<and> analyzeVulnerabilities (xs @ r # ys) = analyzeVulnerabilities (xs @ ys))
   \<and> analyzeVulnerabilities (xs @ ys) = analyzeVulnerabilities xs @ analyzeVulnerabilities ys
   \<and> ((\<forall>x \<in> set rs. state x \<noteq> ''open'') \<longrightarrow> analyzeVulnerabilities rs = [])
   \<and> analyzeVulnerabilities [] = []"
proof (intro conjI impI)
  assume h: "mset (map port (filter (\<lambda>r. state r = ''open'') rs)) = {#21, 22#}"
  let ?os = "filter (\<lambda>r. state r = ''open'') rs"
  let ?ts = "map (\<lambda>v. (title v, severity v))"
  from mset_pair[OF h] obtain x y where xy: "?os = [x, y]"
    and p: "(port x = 21 \<and> port y = 22) \<or> (port x = 22 \<and> port y = 21)"
    by (auto simp: map_eq_Cons_conv)
  have "x \<in> set ?os" "y \<in> set ?os" unfolding xy by simp_all
  then have o: "state x = ''open''" "state y = ''open''" by simp_all
  have a: "analyzeVulnerabilities rs = vulnsOf x @ vulnsOf y"
    using analyze_filter_open[of rs] unfolding xy by (simp add: analyzeVulnerabilities_concat)
  from p have "?ts (vulnsOf x @ vulnsOf y) = [(''FTP Service Detected'', ''high''), (''SSH Service Exposed'', ''medium'')]
       \<or> ?ts (vulnsOf x @ vulnsOf y) = [(''SSH Service Exposed'', ''medium''), (''FTP Service Detected'', ''high'')]"
    using o by (auto simp: vulnsOf_21 vulnsOf_22)
  then have r: "?ts (analyzeVulnerabilities rs) = [(''FTP Service Detected'', ''high''), (''SSH Service Exposed'', ''medium'')]
       \<or> ?ts (analyzeVulnerabilities rs) = [(''SSH Service Exposed'', ''medium''), (''FTP Service Detected'', ''high'')]"
    unfolding a .
  from r have "length (?ts (analyzeVulnerabilities rs)) = 2" by auto
  then show "length (analyzeVulnerabilities rs) = 2" by simp
  from r have "mset (?ts (analyzeVulnerabilities rs))
          = {#(''FTP Service Detected'', ''high''), (''SSH Service Exposed'', ''medium'')#}"
    by (elim disjE) (simp_all only: mset.simps add_mset_commute)
  then show "mset (map (\<lambda>v. (title v, severity v)) (analyzeVulnerabilities rs))
          = {#(''FTP Service Detected'', ''high''), (''SSH Service Exposed'', ''medium'')#}" .
next
  assume n: "port r \<notin> {21, 22, 23, 3306, 5432, 27017, 6379}"
  show "analyzeVulnerabilities [r] = []"
    by (simp add: analyzeVulnerabilities_concat vulnsOf_no_entry[OF n])
  show "analyzeVulnerabilities (xs @ r # ys) = analyzeVulnerabilities (xs @ ys)"
    by (simp add: analyzeVulnerabilities_concat vulnsOf_no_entry[OF n])
next
  show "analyzeVulnerabilities (xs @ ys) = analyzeVulnerabilities xs @ analyzeVulnerabilities ys"
    by (rule analyzeVulnerabilities_append)
next
  assume "\<forall>x \<in> set rs. state x \<noteq> ''open''"
  then show "analyzeVulnerabilities rs = []"
    by (simp add: analyzeVulnerabilities_concat vulnsOf_not_open)
next
  show "analyzeVulnerabilities [] = []"
    by (simp add: analyzeVulnerabilities_def)
qed


text \<open>
  The theorem at the findings SSH open, Telnet closed, FTP open, at an open HTTPS port
  and at a filtered Telnet port.
\<close>

theorem C4_analyzeVulnerabilities_witness:
  "length (analyzeVulnerabilities
      [\<lparr>port = 22, state = ''open'', service = Some ''ssh'', protocol = ''tcp''\<rparr>,
       \<lparr>port = 23, state = ''closed'', service = None, protocol = ''tcp''\<rparr>,
       \<lparr>port = 21, state = ''open'', service = Some ''ftp'', protocol = ''tcp''\<rparr>]) = 2
   \<and> mset (map (\<lambda>v. (title v, severity v)) (analyzeVulnerabilities
      [\<lparr>port = 22, state = ''open'', service = Some ''ssh'', protocol = ''tcp''\<rparr>,
       \<lparr>port = 23, state = ''closed'', service = None, protocol = ''tcp''\<rparr>,
       \<lparr>port = 21, state = ''open'', service = Some ''ftp'', protocol = ''tcp''\<rparr>]))
      = {#(''FTP Service Detected'', ''high''), (''SSH Service Exposed'', ''medium'')#}
   \<and> analyzeVulnerabilities
      [\<lparr>port = 443, state = ''open'', service = Some ''https'', protocol = ''tcp''\<rparr>] = []
   \<and> analyzeVulnerabilities
      [\<lparr>port = 23, state = ''filtered'', service = None, protocol = ''tcp''\<rparr>] = []"
proof -
  let ?rs = "[\<lparr>port = 22, state = ''open'', service = Some ''ssh'', protocol = ''tcp''\<rparr>,
       \<lparr>port = 23, state = ''closed'', service = None, protocol = ''tcp''\<rparr>,
       \<lparr>port = 21, state = ''open'', service = Some ''ftp'', protocol = ''tcp''\<rparr>]"
  let ?w = "\<lparr>port = 443, state = ''open'', service = Some ''https'', protocol = ''tcp''\<rparr>"
  let ?f = "[\<lparr>port = 23, state = ''filtered'', service = None, protocol = ''tcp''\<rparr>]"
  have h1: "mset (map port (filter (\<lambda>r. state r = ''open'') ?rs)) = {#21, 22#}"
    by (simp add: add_mset_commute)
  have h2: "port ?w \<notin> {21, 22, 23, 3306, 5432, 27017, 6379}" by simp
  have h3: "\<forall>x \<in> set ?f. state x \<noteq> ''open''" by simp
  note t1 = C4_analyzeVulnerabilities[of ?rs ?w "[]" "[]", THEN conjunct1, THEN mp, OF h1]
  note t2 = C4_analyzeVulnerabilities[of ?rs ?w "[]" "[]", THEN conjunct2, THEN conjunct1,
              THEN mp, OF h2, THEN conjunct1]
  note t3 = C4_analyzeVulnerabilities[of ?f ?w "[]" "[]", THEN conjunct2, THEN conjunct2,
              THEN conjunct2, THEN conjunct1, THEN mp, OF h3]
  show ?thesis using t1 t2 t3 by blast
qed

section \<open>Properties of the cloud analysis\<close>

lemma bucket_match:
  "matchProviders CLOUD_PROVIDERS ''mybucket.s3.amazonaws.com'' = Some (''aws'', ''storage'')"
  by code_simp

lemma bucket_s3: "str_includes ''mybucket.s3.amazonaws.com'' ''s3''"
  by code_simp

lemma bucket_first_pattern:
  "test (EndsWith ''.amazonaws.com'') ''mybucket.s3.amazonaws.com''"
  by code_simp

text \<open>
  Claim C5. On the host name \<open>mybucket.s3.amazonaws.com\<close>, whatever the resolver answers,
  \<open>detectCloudProvider\<close> returns provider aws with resource type storage: the table alone
  decides (its first provider is aws and its first pattern already matches), so the DNS
  fallback is never consulted; the type is storage because the host name contains \<open>s3\<close>.
  The AWS rule set, and with it the findings of \<open>performCloudSecurityAnalysis\<close>, contains a
  finding with id \<open>aws-s3-public-access\<close>.
\<close>

theorem C5_s3_bucket_detection:
  "detectCloudProvider dns ''mybucket.s3.amazonaws.com'' = Some (''aws'', ''storage'')
   \<and> matchProviders CLOUD_PROVIDERS ''mybucket.s3.amazonaws.com'' = Some (''aws'', ''storage'')
   \<and> fst (hd CLOUD_PROVIDERS) = ''aws''
   \<and> test (hd (snd (hd CLOUD_PROVIDERS))) ''mybucket.s3.amazonaws.com''
   \<and> inferResourceType ''mybucket.s3.amazonaws.com'' ''aws'' = ''storage''
   \<and> ''aws-s3-public-access''
         \<in> set (map f_id (analyzeAWSResource ''storage'' ''mybucket.s3.amazonaws.com'' url))
   \<and> ''aws-s3-public-access''
         \<in> set (map f_id (cr_findings (performCloudSecurityAnalysis (''aws'', ''storage'')
                  ''mybucket.s3.amazonaws.com'' url)))"
proof (intro conjI)
  show "detectCloudProvider dns ''mybucket.s3.amazonaws.com'' = Some (''aws'', ''storage'')"
    unfolding detectCloudProvider_def bucket_match by simp
  show "matchProviders CLOUD_PROVIDERS ''mybucket.s3.amazonaws.com'' = Some (''aws'', ''storage'')"
    by (rule bucket_match)
  show "fst (hd CLOUD_PROVIDERS) = ''aws''"
    by (simp add: CLOUD_PROVIDERS_def)
  show "test (hd (snd (hd CLOUD_PROVIDERS))) ''mybucket.s3.amazonaws.com''"
    unfolding CLOUD_PROVIDERS_def list.sel fst_conv snd_conv by (rule bucket_first_pattern)
  show "inferResourceType ''mybucket.s3.amazonaws.com'' ''aws'' = ''storage''"
    unfolding inferResourceType_def using bucket_s3 by simp
  show a: "''aws-s3-public-access''
         \<in> set (map f_id (analyzeAWSResource ''storage'' ''mybucket.s3.amazonaws.com'' url))"
    unfolding analyzeAWSResource_def using bucket_s3 by simp
  show "''aws-s3-public-access''
         \<in> set (map f_id (cr_findings (performCloudSecurityAnalysis (''aws'', ''storage'')
                  ''mybucket.s3.amazonaws.com'' url)))"
    using a unfolding performCloudSecurityAnalysis_def Let_def by simp
qed

text \<open>
  The theorem with a resolver that fails every lookup.
\<close>

theorem C5_s3_bucket_detection_witness:
  "detectCloudProvider \<lparr>dnsLookup = (\<lambda>h. None), dnsReverse = (\<lambda>a. None)\<rparr>
      ''mybucket.s3.amazonaws.com'' = Some (''aws'', ''storage'')
   \<and> ''aws-s3-public-access''
         \<in> set (map f_id (cr_findings (performCloudSecurityAnalysis (''aws'', ''storage'')
                  ''mybucket.s3.amazonaws.com'' ''https://mybucket.s3.amazonaws.com/'')))"
  using C5_s3_bucket_detection[of "\<lparr>dnsLookup = (\<lambda>h. None), dnsReverse = (\<lambda>a. None)\<rparr>"
          "''https://mybucket.s3.amazonaws.com/''"]
  by blast

lemma foldl_scoreStep:
  "foldl scoreStep acc fs =
     acc - 25 * int (length (filter (\<lambda>f. f_severity f = Critical) fs))
         - 15 * int (length (filter (\<lambda>f. f_severity f = High) fs))
         - 10 * int (length (filter (\<lambda>f. f_severity f = Medium) fs))
         - 5 * int (length (filter (\<lambda>f. f_severity f = Low) fs))"
proof (induction fs arbitrary: acc)
  case Nil
  then show ?case by simp
next
  case (Cons f fs)
  have s: "scoreStep acc f =
      acc - (case f_severity f of Critical \<Rightarrow> 25 | High \<Rightarrow> 15 | Medium \<Rightarrow> 10 | Low \<Rightarrow> 5)"
    by (simp add: scoreStep_def split: severity_level.split)
  show ?case
    unfolding foldl_Cons Cons.IH s by (cases "f_severity f") simp_all
qed

lemma filter_pos: "0 < length (filter P xs) \<longleftrightarrow> (\<exists>x \<in> set xs. P x)"
  by (simp add: filter_empty_conv)

text \<open>
  Claim C6. For every list of findings the cloud score is 100 less 25 per critical, 15
  per high, 10 per medium and 5 per low finding, clamped below at 0, and the risk level is
  critical when a critical finding exists, else high when more than two findings are high,
  else medium when a high finding exists or more than three are medium, else low. The
  score and risk level \<open>performCloudSecurityAnalysis\<close> returns are these functions of the
  findings it returns.
\<close>

theorem C6_cloud_score_and_risk:
  "cloudScore fs =
     max 0 (100 - 25 * int (length (filter (\<lambda>f. f_severity f = Critical) fs))
                - 15 * int (length (filter (\<lambda>f. f_severity f = High) fs))
                - 10 * int (length (filter (\<lambda>f. f_severity f = Medium) fs))
                - 5 * int (length (filter (\<lambda>f. f_severity f = Low) fs)))
   \<and> cloudRiskLevel fs =
       (if \<exists>f \<in> set fs. f_severity f = Critical then Critical
        else if length (filter (\<lambda>f. f_severity f = High) fs) > 2 then High
        else if (\<exists>f \<in> set fs. f_severity f = High)
                \<or> length (filter (\<lambda>f. f_severity f = Medium) fs) > 3 then Medium
        else Low)
   \<and> cr_score (performCloudSecurityAnalysis cloudInfo hostname url)
        = cloudScore (cr_findings (performCloudSecurityAnalysis cloudInfo hostname url))
   \<and> cr_riskLevel (performCloudSecurityAnalysis cloudInfo hostname url)
        = cloudRiskLevel (cr_findings (performCloudSecurityAnalysis cloudInfo hostname url))"
proof (intro conjI)
  show "cloudScore fs =
     max 0 (100 - 25 * int (length (filter (\<lambda>f. f_severity f = Critical) fs))
                - 15 * int (length (filter (\<lambda>f. f_severity f = High) fs))
                - 10 * int (length (filter (\<lambda>f. f_severity f = Medium) fs))
                - 5 * int (length (filter (\<lambda>f. f_severity f = Low) fs)))"
    unfolding cloudScore_def foldl_scoreStep ..
  show "cloudRiskLevel fs =
       (if \<exists>f \<in> set fs. f_severity f = Critical then Critical
        else if length (filter (\<lambda>f. f_severity f = High) fs) > 2 then High
        else if (\<exists>f \<in> set fs. f_severity f = High)
                \<or> length (filter (\<lambda>f. f_severity f = Medium) fs) > 3 then Medium
        else Low)"
    unfolding cloudRiskLevel_def Let_def filter_pos ..
  show "cr_score (performCloudSecurityAnalysis cloudInfo hostname url)
        = cloudScore (cr_findings (performCloudSecurityAnalysis cloudInfo hostname url))"
    unfolding performCloudSecurityAnalysis_def Let_def by simp
  show "cr_riskLevel (performCloudSecurityAnalysis cloudInfo hostname url)
        = cloudRiskLevel (cr_findings (performCloudSecurityAnalysis cloudInfo hostname url))"
    unfolding performCloudSecurityAnalysis_def Let_def by simp
qed


text \<open>
  The theorem at the two findings of an Azure web app, one high and one medium.
\<close>

theorem C6_cloud_score_and_risk_witness:
  "cloudScore (analyzeAzureResource ''webapp'' ''app.azurewebsites.net'' ''https://app.azurewebsites.net/'') = 75
   \<and> cloudRiskLevel (analyzeAzureResource ''webapp'' ''app.azurewebsites.net'' ''https://app.azurewebsites.net/'') = Medium"
proof -
  let ?fs = "analyzeAzureResource ''webapp'' ''app.azurewebsites.net'' ''https://app.azurewebsites.net/''"
  note t = C6_cloud_score_and_risk[of ?fs "(''azure'', ''webapp'')" "''app.azurewebsites.net''"
             "''https://app.azurewebsites.net/''"]
  have c: "length (filter (\<lambda>f. f_severity f = Critical) ?fs) = 0"
          "length (filter (\<lambda>f. f_severity f = High) ?fs) = 1"
          "length (filter (\<lambda>f. f_severity f = Medium) ?fs) = 1"
          "length (filter (\<lambda>f. f_severity f = Low) ?fs) = 0"
    by (simp_all add: analyzeAzureResource_def)
  have e: "\<not> (\<exists>f \<in> set ?fs. f_severity f = Critical)" "\<exists>f \<in> set ?fs. f_severity f = High"
    by (simp_all add: analyzeAzureResource_def)
  have 1: "cloudScore ?fs = 75"
    by (subst t[THEN conjunct1]) (simp add: c)
  have 2: "cloudRiskLevel ?fs = Medium"
    by (subst t[THEN conjunct2, THEN conjunct1]) (simp add: c e)
  show ?thesis using 1 2 by (rule conjI)
qed

section \<open>Properties of the scan orchestration\<close>

lemma statusWrites_append: "statusWrites (xs @ ys) = statusWrites xs @ statusWrites ys"
  by (induction xs rule: statusWrites.induct) simp_all

lemma statusWrites_ScanPort: "statusWrites (map ScanPort ps) = []"
  by (induction ps) simp_all

lemma quietStep_refl: "quietStep r r"
  by (simp add: quietStep_def)

lemma quietStep_trans: "quietStep a b \<Longrightarrow> quietStep b c \<Longrightarrow> quietStep a c"
  unfolding quietStep_def by (metis prefix_order.order_trans)

lemma quiet_storeResult: "quietStep r (storeResult scanId r x)"
  by (simp add: quietStep_def storeResult_def logged_def addScanResult_def statusWrites_append)

lemma quiet_storeVulnerability: "quietStep r (storeVulnerability scanId r v)"
  by (simp add: quietStep_def storeVulnerability_def logged_def addVulnerability_def
      statusWrites_append)

lemma quiet_foldl:
  assumes "\<And>r x. quietStep r (f r x)"
  shows "quietStep r (foldl f r xs)"
proof (induction xs arbitrary: r)
  case Nil
  show ?case by (simp add: quietStep_refl)
next
  case (Cons x xs)
  show ?case using quietStep_trans[OF assms[of r x] Cons[of "f r x"]] by simp
qed

lemma quiet_probes: "quietStep r (r\<lparr>trace := trace r @ map ScanPort ps\<rparr>)"
  by (simp add: quietStep_def statusWrites_append statusWrites_ScanPort)

lemma quiet_ssl_call: "quietStep r (logged AnalyzeSsl id r)"
  by (simp add: quietStep_def logged_def statusWrites_append)

lemma quiet_ssl_add: "quietStep r (logged AddSslAnalysis (\<lambda>st. addSslAnalysis st a) r)"
  by (simp add: quietStep_def logged_def addSslAnalysis_def statusWrites_append)

lemma quiet_headers_call: "quietStep r (logged AnalyzeHeaders id r)"
  by (simp add: quietStep_def logged_def statusWrites_append)

lemma quiet_headers_add: "quietStep r (logged AddSecurityHeaders (\<lambda>st. addSecurityHeaders st h) r)"
  by (simp add: quietStep_def logged_def addSecurityHeaders_def statusWrites_append)

lemma awaitAll_resolved:
  "\<forall>p \<in> set ps. \<exists>v. p = Resolved v \<Longrightarrow> \<exists>vs. awaitAll ps = Resolved vs"
  by (induction ps) auto

lemma awaitAll_not_rejected:
  "\<forall>p \<in> set ps. \<forall>e. p \<noteq> Rejected e \<Longrightarrow> awaitAll ps \<noteq> Rejected e'"
proof (induction ps)
  case Nil
  then show ?case by simp
next
  case (Cons p ps)
  then show ?case by (cases p; cases "awaitAll ps") auto
qed


lemma quiet_ssl_step:
  "quietStep r (snd (if c then
        (case res of
           Inr a \<Rightarrow> (Some a, logged AddSslAnalysis (\<lambda>st. addSslAnalysis st a) (logged AnalyzeSsl id r))
         | Inl e \<Rightarrow> (None, logged AnalyzeSsl id r))
      else (None, r)))"
  by (cases c; cases res)
     (auto intro: quietStep_trans[OF quiet_ssl_call quiet_ssl_add] quiet_ssl_call quietStep_refl)

lemma quiet_headers_step:
  "quietStep r (snd (if c then
        (case res of
           Inr h \<Rightarrow> (Some h, logged AddSecurityHeaders (\<lambda>st. addSecurityHeaders st h)
                              (logged AnalyzeHeaders id r))
         | Inl e \<Rightarrow> (None, logged AnalyzeHeaders id r))
      else (None, r)))"
  by (cases c; cases res)
     (auto intro: quietStep_trans[OF quiet_headers_call quiet_headers_add] quiet_headers_call
        quietStep_refl)

lemma performScan_completed:
  assumes u: "parseUrl env url = Inr hostname"
    and a: "awaitAll (map (\<lambda>p. promise (scanPort hostname p 3000 (portEvents env hostname p)))
              commonPorts) = Resolved results"
  shows "\<exists>r6 summary.
     quietStep (r0\<lparr>trace := trace r0 @ UpdateScanStatus ''running'' # map ScanPort commonPorts,
                  store := updateScan (store r0) scanId
                     \<lparr>u_status = Some ''running'', u_completedAt = None, u_results = None,
                      u_errorMessage = None\<rparr>\<rparr>) r6
     \<and> performScan env r0 scanId url =
        Some (logged (UpdateScanStatus ''completed'')
               (\<lambda>st. updateScan st scanId
                  \<lparr>u_status = Some ''completed'', u_completedAt = Some (finishTime env),
                   u_results = Some summary, u_errorMessage = None\<rparr>) r6)"
proof -
  define r2 where "r2 = r0\<lparr>trace := trace r0 @ UpdateScanStatus ''running'' # map ScanPort commonPorts,
                  store := updateScan (store r0) scanId
                     \<lparr>u_status = Some ''running'', u_completedAt = None, u_results = None,
                      u_errorMessage = None\<rparr>\<rparr>"
  define r4 where "r4 = foldl (storeVulnerability scanId) (foldl (storeResult scanId) r2 results)
       (analyzeVulnerabilities (filter (\<lambda>x. state x = ''open'') results))"
  define c1 where "c1 = (find (\<lambda>x. port x = 443 \<and> state x = ''open'') results \<noteq> None)"
  define c2 where "c2 = (find (\<lambda>x. port x = 443 \<and> state x = ''open'') results \<noteq> None
                       \<or> find (\<lambda>x. port x = 80 \<and> state x = ''open'') results \<noteq> None)"
  define p5 where "p5 = (if c1 then
        (case analyzeSslCertificate env url scanId of
           Inr a \<Rightarrow> (Some a, logged AddSslAnalysis (\<lambda>st. addSslAnalysis st a) (logged AnalyzeSsl id r4))
         | Inl e \<Rightarrow> (None, logged AnalyzeSsl id r4))
      else (None, r4))"
  define p6 where "p6 = (if c2 then
        (case analyzeSecurityHeaders env url scanId of
           Inr h \<Rightarrow> (Some h, logged AddSecurityHeaders (\<lambda>st. addSecurityHeaders st h)
                              (logged AnalyzeHeaders id (snd p5)))
         | Inl e \<Rightarrow> (None, logged AnalyzeHeaders id (snd p5)))
      else (None, snd p5))"
  have r2': "(logged (UpdateScanStatus ''running'')
                (\<lambda>st. updateScan st scanId
                   \<lparr>u_status = Some ''running'', u_completedAt = None, u_results = None,
                    u_errorMessage = None\<rparr>) r0)
            \<lparr>trace := trace (logged (UpdateScanStatus ''running'')
                (\<lambda>st. updateScan st scanId
                   \<lparr>u_status = Some ''running'', u_completedAt = None, u_results = None,
                    u_errorMessage = None\<rparr>) r0) @ map ScanPort commonPorts\<rparr> = r2"
    unfolding r2_def logged_def by simp
  have q4: "quietStep r2 r4"
    unfolding r4_def
    by (rule quietStep_trans[OF quiet_foldl quiet_foldl])
       (rule quiet_storeResult, rule quiet_storeVulnerability)
  have q5: "quietStep r4 (snd p5)" unfolding p5_def by (rule quiet_ssl_step)
  have q6: "quietStep (snd p5) (snd p6)" unfolding p6_def by (rule quiet_headers_step)
  have q: "quietStep r2 (snd p6)"
    by (rule quietStep_trans[OF q4 quietStep_trans[OF q5 q6]])
  have e: "performScan env r0 scanId url =
        Some (logged (UpdateScanStatus ''completed'')
               (\<lambda>st. updateScan st scanId
                  \<lparr>u_status = Some ''completed'', u_completedAt = Some (finishTime env),
                   u_results = Some \<lparr>totalPorts = length results,
                                    openPorts = length (filter (\<lambda>x. state x = ''open'') results),
                                    vulnerabilityCount = length (analyzeVulnerabilities (filter (\<lambda>x. state x = ''open'') results)),
                                    sslAnalyzed = (fst p5 \<noteq> None),
                                    securityHeadersAnalyzed = (fst p6 \<noteq> None)\<rparr>,
                   u_errorMessage = None\<rparr>) (snd p6))"
    unfolding performScan_def Let_def u sum.case a promise.case r2' split_def
    unfolding p6_def p5_def c1_def c2_def r4_def ..
  show ?thesis
    using q e unfolding r2_def by blast
qed


lemma scanPort_never_rejected:
  "validPort p \<Longrightarrow> 0 \<le> t \<Longrightarrow> promise (scanPort host p t evs) \<noteq> Rejected e"
  unfolding scanPort_valid by (rule foldl_not_rejected) simp

lemma scanPort_resolved:
  "validPort p \<Longrightarrow> 0 \<le> t \<Longrightarrow> evs \<noteq> [] \<Longrightarrow>
     \<exists>v. promise (scanPort host p t evs) = Resolved v"
  by (cases evs) (simp_all add: scanPort_first)

lemma scanPort_pending:
  "validPort p \<Longrightarrow> 0 \<le> t \<Longrightarrow> promise (scanPort host p t []) = Pending"
  by (simp add: scanPort_valid)

lemma probes_not_rejected:
  "\<forall>p \<in> set ps. validPort p \<Longrightarrow> 0 \<le> t \<Longrightarrow>
     awaitAll (map (\<lambda>p. promise (scanPort h p t (ev p))) ps) \<noteq> Rejected e"
  by (rule awaitAll_not_rejected) (auto simp: scanPort_never_rejected)

lemma probes_resolved:
  "\<forall>p \<in> set ps. ev p \<noteq> [] \<Longrightarrow> \<forall>p \<in> set ps. validPort p \<Longrightarrow> 0 \<le> t \<Longrightarrow>
     \<exists>results. awaitAll (map (\<lambda>p. promise (scanPort h p t (ev p))) ps) = Resolved results"
  by (rule awaitAll_resolved) (auto intro: scanPort_resolved)

lemma awaitAll_pending:
  "Pending \<in> set ps \<Longrightarrow> \<forall>p \<in> set ps. \<forall>e. p \<noteq> Rejected e \<Longrightarrow> awaitAll ps = Pending"
proof (induction ps)
  case Nil
  then show ?case by simp
next
  case (Cons p ps)
  have nr: "\<And>e. awaitAll ps \<noteq> Rejected e"
    using Cons.prems(2) by (intro awaitAll_not_rejected) auto
  show ?case
  proof (cases p)
    case Pending
    then show ?thesis using nr by (cases "awaitAll ps") auto
  next
    case (Resolved v)
    then have "Pending \<in> set ps" using Cons.prems(1) by auto
    then have "awaitAll ps = Pending" using Cons.IH Cons.prems(2) by auto
    then show ?thesis using Resolved by simp
  next
    case (Rejected e)
    then show ?thesis using Cons.prems(2) by auto
  qed
qed

lemma probes_pending:
  assumes "p0 \<in> set ps" "ev p0 = []" "\<forall>p \<in> set ps. validPort p" "0 \<le> t"
  shows "awaitAll (map (\<lambda>p. promise (scanPort h p t (ev p))) ps) = Pending"
proof (rule awaitAll_pending)
  have "promise (scanPort h p0 t (ev p0)) = Pending"
    using assms by (simp add: scanPort_pending)
  then show "Pending \<in> set (map (\<lambda>p. promise (scanPort h p t (ev p))) ps)"
    using assms(1) by (metis (mono_tags, lifting) image_eqI list.set_map)
  show "\<forall>p\<in>set (map (\<lambda>p. promise (scanPort h p t (ev p))) ps). \<forall>e. p \<noteq> Rejected e"
    using assms(3,4) by (auto simp: scanPort_never_rejected)
qed

lemma commonPorts_all_valid: "\<forall>p \<in> set commonPorts. validPort p"
  by (simp add: commonPorts_valid)

lemma default_timeout_valid: "(0::int) \<le> 3000"
  by simp

lemma performScan_failed:
  assumes "parseUrl env url = Inl e"
  shows "performScan env r0 scanId url =
     Some (failScan env (logged (UpdateScanStatus ''running'')
                (\<lambda>st. updateScan st scanId
                   \<lparr>u_status = Some ''running'', u_completedAt = None, u_results = None,
                    u_errorMessage = None\<rparr>) r0) scanId e)"
  unfolding performScan_def Let_def assms by simp

lemma performScan_hangs:
  assumes "parseUrl env url = Inr hostname" "p0 \<in> set commonPorts" "portEvents env hostname p0 = []"
  shows "performScan env r0 scanId url = None"
  unfolding performScan_def Let_def assms(1) sum.case
    probes_pending[of p0 commonPorts "portEvents env hostname" 3000 hostname,
      OF assms(2,3) commonPorts_all_valid default_timeout_valid]
  by simp


lemma updateScan_existing:
  "st_scans st k = Some sc \<Longrightarrow>
     updateScan st k u = st\<lparr>st_scans := (st_scans st)(k \<mapsto> applyUpdates sc u)\<rparr>"
  by (simp add: updateScan_def)

text \<open>
  Claim C8. \<open>createScan\<close> stores a scan with status pending. A run of \<open>performScan\<close> on a
  stored scan whose probes all settle returns, and its own part of the trace starts with
  the write of running, before any probe, and contains exactly one more status write, its
  last action, which is completed or failed. It is completed exactly when the url parses;
  then the completion time and the results summary are set. It is failed exactly when an
  exception escapes the pipeline, and then the scan carries the error message and the
  completion time; the two status writes of the run are running and failed, so failed is
  entered from running. Every other scan is left as it was, and the child records stored
  before the end of the run are all still there: the lists only grow. While a probe
  never settles the run does not return. The scan the request handler launches is stored,
  pending, and its url has parsed.
\<close>

theorem C8_scan_lifecycle:
  "scan_status (fst (createScan st0 url ident t)) = ''pending''
   \<and> (st_scans (store r0) scanId = Some sc
        \<and> (\<forall>hostname. parseUrl env url = Inr hostname \<longrightarrow>
              (\<forall>p \<in> set commonPorts. portEvents env hostname p \<noteq> []))
      \<longrightarrow> (\<exists>r' rest sc' final.
            performScan env r0 scanId url = Some r'
            \<and> trace r' = trace r0 @ UpdateScanStatus ''running'' # rest
            \<and> statusWrites rest = [final]
            \<and> last rest = UpdateScanStatus final
            \<and> (final = ''completed'' \<or> final = ''failed'')
            \<and> (final = ''completed'' \<longleftrightarrow> (\<exists>h. parseUrl env url = Inr h))
            \<and> ((\<exists>h. parseUrl env url = Inr h) \<longrightarrow> prefix (map ScanPort commonPorts) rest)
            \<and> st_scans (store r') scanId = Some sc'
            \<and> scan_status sc' = final
            \<and> scan_completedAt sc' = Some (finishTime env)
            \<and> (final = ''completed'' \<longrightarrow> scan_results sc' \<noteq> None)
            \<and> (final = ''failed'' \<longrightarrow>
                  (\<exists>e. parseUrl env url = Inl e \<and> scan_errorMessage sc' = Some e))
            \<and> (\<forall>k. k \<noteq> scanId \<longrightarrow> st_scans (store r') k = st_scans (store r0) k)
            \<and> prefix (st_scanResults (store r0)) (st_scanResults (store r'))
            \<and> prefix (st_vulnerabilities (store r0)) (st_vulnerabilities (store r'))
            \<and> prefix (st_sslAnalyses (store r0)) (st_sslAnalyses (store r'))
            \<and> prefix (st_securityHeaders (store r0)) (st_securityHeaders (store r'))))
   \<and> (parseUrl env url = Inr hostname
        \<and> (\<exists>p \<in> set commonPorts. portEvents env hostname p = [])
      \<longrightarrow> performScan env r0 scanId url = None)
   \<and> (postScans env st body = (resp, st', Some (launchedId, launchedUrl))
      \<longrightarrow> (\<exists>scan h. st_scans st' launchedId = Some scan \<and> scan_status scan = ''pending''
                   \<and> scan_url scan = launchedUrl \<and> parseUrl env launchedUrl = Inr h))"
proof (intro conjI impI)
  show "scan_status (fst (createScan st0 url ident t)) = ''pending''"
    by (simp add: createScan_def Let_def)
next
  assume "postScans env st body = (resp, st', Some (launchedId, launchedUrl))"
  then show "\<exists>scan h. st_scans st' launchedId = Some scan \<and> scan_status scan = ''pending''
                   \<and> scan_url scan = launchedUrl \<and> parseUrl env launchedUrl = Inr h"
    by (auto simp: postScans_def createScan_def Let_def split: option.splits sum.splits)
next
  assume "parseUrl env url = Inr hostname \<and> (\<exists>p \<in> set commonPorts. portEvents env hostname p = [])"
  then show "performScan env r0 scanId url = None"
    using performScan_hangs by blast
next
  assume h: "st_scans (store r0) scanId = Some sc
        \<and> (\<forall>hostname. parseUrl env url = Inr hostname \<longrightarrow>
              (\<forall>p \<in> set commonPorts. portEvents env hostname p \<noteq> []))"
  then have sc: "st_scans (store r0) scanId = Some sc" by blast
  let ?run = "\<lparr>u_status = Some ''running'', u_completedAt = None, u_results = None,
                      u_errorMessage = None\<rparr>"
  let ?sc1 = "applyUpdates sc ?run"
  show "\<exists>r' rest sc' final.
            performScan env r0 scanId url = Some r'
            \<and> trace r' = trace r0 @ UpdateScanStatus ''running'' # rest
            \<and> statusWrites rest = [final]
            \<and> last rest = UpdateScanStatus final
            \<and> (final = ''completed'' \<or> final = ''failed'')
            \<and> (final = ''completed'' \<longleftrightarrow> (\<exists>h. parseUrl env url = Inr h))
            \<and> ((\<exists>h. parseUrl env url = Inr h) \<longrightarrow> prefix (map ScanPort commonPorts) rest)
            \<and> st_scans (store r') scanId = Some sc'
            \<and> scan_status sc' = final
            \<and> scan_completedAt sc' = Some (finishTime env)
            \<and> (final = ''completed'' \<longrightarrow> scan_results sc' \<noteq> None)
            \<and> (final = ''failed'' \<longrightarrow>
                  (\<exists>e. parseUrl env url = Inl e \<and> scan_errorMessage sc' = Some e))
            \<and> (\<forall>k. k \<noteq> scanId \<longrightarrow> st_scans (store r') k = st_scans (store r0) k)
            \<and> prefix (st_scanResults (store r0)) (st_scanResults (store r'))
            \<and> prefix (st_vulnerabilities (store r0)) (st_vulnerabilities (store r'))
            \<and> prefix (st_sslAnalyses (store r0)) (st_sslAnalyses (store r'))
            \<and> prefix (st_securityHeaders (store r0)) (st_securityHeaders (store r'))"
  proof (cases "parseUrl env url")
    case (Inl e)
    let ?fail = "\<lparr>u_status = Some ''failed'', u_completedAt = Some (finishTime env),
                   u_results = None, u_errorMessage = Some e\<rparr>"
    let ?r' = "failScan env (logged (UpdateScanStatus ''running'')
                (\<lambda>st. updateScan st scanId ?run) r0) scanId e"
    have p: "performScan env r0 scanId url = Some ?r'"
      by (rule performScan_failed[OF Inl])
    have t: "trace ?r' = trace r0 @ UpdateScanStatus ''running'' # [UpdateScanStatus ''failed'']"
      by (simp add: failScan_def logged_def)
    have s1: "updateScan (store r0) scanId ?run
                = (store r0)\<lparr>st_scans := (st_scans (store r0))(scanId \<mapsto> ?sc1)\<rparr>"
      by (rule updateScan_existing[OF sc])
    have sc1: "st_scans (updateScan (store r0) scanId ?run) scanId = Some ?sc1"
      unfolding s1 by simp
    have s: "store ?r' = (store r0)\<lparr>st_scans := (st_scans (store r0))
                (scanId \<mapsto> applyUpdates ?sc1 ?fail)\<rparr>"
      unfolding failScan_def logged_def Run.simps updateScan_existing[OF sc1]
      unfolding s1 by simp
    show ?thesis
      apply (rule exI[of _ ?r'], rule exI[of _ "[UpdateScanStatus ''failed'']"],
             rule exI[of _ "applyUpdates ?sc1 ?fail"], rule exI[of _ "''failed''"])
      apply (simp only: p t s)
      apply (simp add: Inl applyUpdates_def)
      done
  next
    case (Inr hn)
    with h have ev: "\<forall>p \<in> set commonPorts. portEvents env hn p \<noteq> []" by blast
    from probes_resolved[OF ev commonPorts_all_valid default_timeout_valid, of hn] obtain results where
      a: "awaitAll (map (\<lambda>p. promise (scanPort hn p 3000 (portEvents env hn p))) commonPorts)
            = Resolved results" by blast
    let ?r2 = "r0\<lparr>trace := trace r0 @ UpdateScanStatus ''running'' # map ScanPort commonPorts,
                  store := updateScan (store r0) scanId ?run\<rparr>"
    from performScan_completed[OF Inr a, of r0 scanId] obtain r6 summary where
      q: "quietStep ?r2 r6" and
      p: "performScan env r0 scanId url =
        Some (logged (UpdateScanStatus ''completed'')
               (\<lambda>st. updateScan st scanId
                  \<lparr>u_status = Some ''completed'', u_completedAt = Some (finishTime env),
                   u_results = Some summary, u_errorMessage = None\<rparr>) r6)"
      by blast
    let ?done = "\<lparr>u_status = Some ''completed'', u_completedAt = Some (finishTime env),
                   u_results = Some summary, u_errorMessage = None\<rparr>"
    let ?r' = "logged (UpdateScanStatus ''completed'') (\<lambda>st. updateScan st scanId ?done) r6"
    from q have q1: "st_scans (store r6) = st_scans (store ?r2)"
      and q2: "prefix (st_scanResults (store ?r2)) (st_scanResults (store r6))"
      and q3: "prefix (st_vulnerabilities (store ?r2)) (st_vulnerabilities (store r6))"
      and q4: "prefix (st_sslAnalyses (store ?r2)) (st_sslAnalyses (store r6))"
      and q5: "prefix (st_securityHeaders (store ?r2)) (st_securityHeaders (store r6))"
      and q6: "prefix (trace ?r2) (trace r6)"
      and q7: "statusWrites (trace r6) = statusWrites (trace ?r2)"
      unfolding quietStep_def by blast+
    from q6 obtain zs where zs: "trace r6 = trace ?r2 @ zs" by (auto simp: prefix_def)
    from q7 have z0: "statusWrites zs = []"
      unfolding zs by (simp add: statusWrites_append)
    have s2: "store ?r2 = (store r0)\<lparr>st_scans := (st_scans (store r0))(scanId \<mapsto> ?sc1)\<rparr>"
      by (simp add: updateScan_existing[OF sc])
    have sc6: "st_scans (store r6) scanId = Some ?sc1"
      unfolding q1 s2 by simp
    have t: "trace ?r' = trace r0 @ UpdateScanStatus ''running''
                # (map ScanPort commonPorts @ zs @ [UpdateScanStatus ''completed''])"
      by (simp add: logged_def zs)
    have s: "store ?r' = (store r6)\<lparr>st_scans := (st_scans (store r6))
                (scanId \<mapsto> applyUpdates ?sc1 ?done)\<rparr>"
      by (simp add: logged_def updateScan_existing[OF sc6])
    have others: "\<forall>k. k \<noteq> scanId \<longrightarrow> st_scans (store ?r') k = st_scans (store r0) k"
      unfolding s by (simp add: q1 s2)
    have pre: "prefix (st_scanResults (store r0)) (st_scanResults (store ?r'))"
       "prefix (st_vulnerabilities (store r0)) (st_vulnerabilities (store ?r'))"
       "prefix (st_sslAnalyses (store r0)) (st_sslAnalyses (store ?r'))"
       "prefix (st_securityHeaders (store r0)) (st_securityHeaders (store ?r'))"
      using q2 q3 q4 q5 unfolding s s2 by simp_all
    have w: "statusWrites (map ScanPort commonPorts @ zs @ [UpdateScanStatus ''completed''])
              = [''completed'']"
      by (simp add: statusWrites_append statusWrites_ScanPort z0)
    show ?thesis
      apply (rule exI[of _ ?r'],
             rule exI[of _ "map ScanPort commonPorts @ zs @ [UpdateScanStatus ''completed'']"],
             rule exI[of _ "applyUpdates ?sc1 ?done"], rule exI[of _ "''completed''"])
      apply (intro conjI)
      subgoal by (rule p)
      subgoal by (rule t)
      subgoal by (rule w)
      subgoal by simp
      subgoal by simp
      subgoal using Inr by simp
      subgoal by simp
      subgoal unfolding s by simp
      subgoal by (simp add: applyUpdates_def)
      subgoal by (simp add: applyUpdates_def)
      subgoal by (simp add: applyUpdates_def)
      subgoal by simp
      subgoal by (rule others)
      subgoal by (rule pre(1))
      subgoal by (rule pre(2))
      subgoal by (rule pre(3))
      subgoal by (rule pre(4))
      done
  qed
qed



text \<open>
  The theorem at a fresh scan of \<open>https://example.com\<close>, which completes, and at a fresh
  scan of a url that does not parse, which fails with the message of the exception.
\<close>

theorem C8_scan_lifecycle_witness:
  "(\<exists>r' sc'. performScan exampleEnv
        \<lparr>store = snd (createScan emptyStorage ''https://example.com'' ''scan-1'' 0), trace = []\<rparr>
        ''scan-1'' ''https://example.com'' = Some r'
      \<and> hd (trace r') = UpdateScanStatus ''running''
      \<and> statusWrites (trace r') = [''running'', ''completed'']
      \<and> st_scans (store r') ''scan-1'' = Some sc'
      \<and> scan_status sc' = ''completed'' \<and> scan_completedAt sc' = Some 5000)
   \<and> (\<exists>r' sc'. performScan exampleEnv
        \<lparr>store = snd (createScan emptyStorage ''not a url'' ''scan-1'' 0), trace = []\<rparr>
        ''scan-1'' ''not a url'' = Some r'
      \<and> statusWrites (trace r') = [''running'', ''failed'']
      \<and> st_scans (store r') ''scan-1'' = Some sc'
      \<and> scan_status sc' = ''failed'' \<and> scan_errorMessage sc' = Some ''Invalid URL''
      \<and> scan_completedAt sc' = Some 5000)"
proof -
  let ?good = "''https://example.com''"
  let ?bad = "''not a url''"
  let ?r0 = "\<lambda>u. \<lparr>store = snd (createScan emptyStorage u ''scan-1'' 0), trace = []\<rparr>"
  let ?sc = "\<lambda>u. \<lparr>scan_id = ''scan-1'', scan_url = u, scan_status = ''pending'',
                  scan_results = None, scan_createdAt = 0, scan_completedAt = None,
                  scan_errorMessage = None\<rparr>"
  have ex: "\<And>u. st_scans (store (?r0 u)) ''scan-1'' = Some (?sc u)"
    by (simp add: createScan_def Let_def)
  have pg: "parseUrl exampleEnv ?good = Inr ''example.com''"
    and pb: "parseUrl exampleEnv ?bad = Inl ''Invalid URL''"
    and ft: "finishTime exampleEnv = 5000"
    by (simp_all add: exampleEnv_def)
  have ev: "\<And>u. \<forall>hostname. parseUrl exampleEnv u = Inr hostname \<longrightarrow>
              (\<forall>p \<in> set commonPorts. portEvents exampleEnv hostname p \<noteq> [])"
    by (simp add: exampleEnv_def)
  have tr: "\<And>u. trace (?r0 u) = []" by simp
  have 1: "\<exists>r' sc'. performScan exampleEnv (?r0 ?good) ''scan-1'' ?good = Some r'
      \<and> hd (trace r') = UpdateScanStatus ''running''
      \<and> statusWrites (trace r') = [''running'', ''completed'']
      \<and> st_scans (store r') ''scan-1'' = Some sc'
      \<and> scan_status sc' = ''completed'' \<and> scan_completedAt sc' = Some 5000"
    using C8_scan_lifecycle[of emptyStorage ?good "''scan-1''" 0 "?r0 ?good" "''scan-1''"
      "?sc ?good" exampleEnv "''example.com''", THEN conjunct2, THEN conjunct1, THEN mp,
      OF conjI[OF ex ev]]
    unfolding tr pg ft
    apply (elim exE conjE)
    subgoal for r' rest sc' final
      apply (rule exI[of _ r'], rule exI[of _ sc'])
      apply simp
      done
    done
  have 2: "\<exists>r' sc'. performScan exampleEnv (?r0 ?bad) ''scan-1'' ?bad = Some r'
      \<and> statusWrites (trace r') = [''running'', ''failed'']
      \<and> st_scans (store r') ''scan-1'' = Some sc'
      \<and> scan_status sc' = ''failed'' \<and> scan_errorMessage sc' = Some ''Invalid URL''
      \<and> scan_completedAt sc' = Some 5000"
    using C8_scan_lifecycle[of emptyStorage ?bad "''scan-1''" 0 "?r0 ?bad" "''scan-1''"
      "?sc ?bad" exampleEnv "''example.com''", THEN conjunct2, THEN conjunct1, THEN mp,
      OF conjI[OF ex ev]]
    unfolding tr pb ft
    apply (elim exE conjE)
    subgoal for r' rest sc' final
      apply (rule exI[of _ r'], rule exI[of _ sc'])
      apply auto
      done
    done
  show ?thesis using 1 2 by (rule conjI)
qed

section \<open>Properties of the TLS posture and of the request handler\<close>

lemma sslTryBody_fails_iff:
  "(\<exists>e. sslTryBody env hostname scanId = Inl e)
     \<longleftrightarrow> (\<exists>e. getCertificateInfo env hostname = Inl e) \<or> (\<exists>e. checkHSTS env hostname = Inl e)"
  unfolding sslTryBody_def Let_def
  by (cases "getCertificateInfo env hostname"; cases "checkHSTS env hostname") simp_all

lemma analyzeSslCertificate_bad_url:
  "parseUrl env url = Inl e \<Longrightarrow> analyzeSslCertificate env url scanId = Inl e"
  by (simp add: analyzeSslCertificate_def)

lemma performScan_ends_completed:
  assumes u: "parseUrl env url = Inr hostname" and p: "performScan env r0 scanId url = Some r'"
  shows "last (trace r') = UpdateScanStatus ''completed''"
proof -
  let ?ps = "map (\<lambda>p. promise (scanPort hostname p 3000 (portEvents env hostname p))) commonPorts"
  show ?thesis
  proof (cases "awaitAll ?ps")
    case Pending
    with p u show ?thesis by (simp add: performScan_def Let_def)
  next
    case (Rejected e)
    with probes_not_rejected[OF commonPorts_all_valid default_timeout_valid,
        of hostname "portEvents env hostname" e]
    show ?thesis by simp
  next
    case (Resolved results)
    from performScan_completed[OF u Resolved, of r0 scanId] p
    show ?thesis by (auto simp: logged_def)
  qed
qed

text \<open>
  Claim C7. The program calls \<open>analyzeSslCertificate\<close> only on a url that has parsed:
  the request handler and \<open>performScan\<close> both parse it first, and the analysis is reached
  only once port 443 was found open. On such a url \<open>analyzeSslCertificate\<close> always
  returns an analysis and never throws; whenever a step of its \<open>try\<close> block throws (the
  certificate cannot be fetched, or the HSTS request throws) it returns the failed
  analysis, with \<open>certificateValid\<close> false, grade F, score 0 and the single vulnerability
  \<open>SSL/TLS connection failed\<close>. Whatever the TLS analysis does, a run of \<open>performScan\<close>
  on that url that returns ends with the write of completed: a TLS failure never aborts
  the scan.
\<close>

theorem C7_tls_failure_recovered:
  "parseUrl env url = Inr hostname \<longrightarrow>
     (\<exists>a. analyzeSslCertificate env url scanId = Inr a)
     \<and> ((\<exists>e. getCertificateInfo env hostname = Inl e) \<or> (\<exists>e. checkHSTS env hostname = Inl e)
          \<or> (\<exists>e. sslTryBody env hostname scanId = Inl e)
        \<longrightarrow> analyzeSslCertificate env url scanId = Inr (failedSslAnalysis scanId hostname))
     \<and> ssl_certificateValid (failedSslAnalysis scanId hostname) = False
     \<and> ssl_grade (failedSslAnalysis scanId hostname) = ''F''
     \<and> ssl_score (failedSslAnalysis scanId hostname) = 0
     \<and> ssl_vulnerabilities (failedSslAnalysis scanId hostname) = [''SSL/TLS connection failed'']
     \<and> (\<forall>r0 r'. performScan env r0 scanId url = Some r'
            \<longrightarrow> last (trace r') = UpdateScanStatus ''completed'')"
proof (intro impI conjI allI)
  assume u: "parseUrl env url = Inr hostname"
  show "\<exists>a. analyzeSslCertificate env url scanId = Inr a"
    unfolding analyzeSslCertificate_def u by (cases "sslTryBody env hostname scanId") simp_all
  show "ssl_certificateValid (failedSslAnalysis scanId hostname) = False"
       "ssl_grade (failedSslAnalysis scanId hostname) = ''F''"
       "ssl_score (failedSslAnalysis scanId hostname) = 0"
       "ssl_vulnerabilities (failedSslAnalysis scanId hostname) = [''SSL/TLS connection failed'']"
    by (simp_all add: failedSslAnalysis_def)
  { assume "(\<exists>e. getCertificateInfo env hostname = Inl e) \<or> (\<exists>e. checkHSTS env hostname = Inl e)
          \<or> (\<exists>e. sslTryBody env hostname scanId = Inl e)"
    then have "\<exists>e. sslTryBody env hostname scanId = Inl e"
      using sslTryBody_fails_iff[of env hostname scanId] by blast
    then show "analyzeSslCertificate env url scanId = Inr (failedSslAnalysis scanId hostname)"
      unfolding analyzeSslCertificate_def u by auto }
  { fix r0 r' assume "performScan env r0 scanId url = Some r'"
    then show "last (trace r') = UpdateScanStatus ''completed''"
      by (rule performScan_ends_completed[OF u]) }
qed

text \<open>
  The theorem at a host whose certificate cannot be fetched.
\<close>

theorem C7_tls_failure_recovered_witness:
  "analyzeSslCertificate exampleEnv ''https://example.com'' ''scan-1''
     = Inr (failedSslAnalysis ''scan-1'' ''example.com'')
   \<and> ssl_grade (failedSslAnalysis ''scan-1'' ''example.com'') = ''F''
   \<and> ssl_score (failedSslAnalysis ''scan-1'' ''example.com'') = 0"
proof -
  have u: "parseUrl exampleEnv ''https://example.com'' = Inr ''example.com''"
    by (simp add: exampleEnv_def)
  have c: "\<exists>e. getCertificateInfo exampleEnv ''example.com'' = Inl e"
    by (simp add: exampleEnv_def)
  note t = C7_tls_failure_recovered[of exampleEnv "''https://example.com''" "''example.com''"
             "''scan-1''", THEN mp, OF u]
  have 1: "analyzeSslCertificate exampleEnv ''https://example.com'' ''scan-1''
     = Inr (failedSslAnalysis ''scan-1'' ''example.com'')"
    using t[THEN conjunct2, THEN conjunct1] c by blast
  show ?thesis
    using 1 t[THEN conjunct2, THEN conjunct2, THEN conjunct2, THEN conjunct1]
      t[THEN conjunct2, THEN conjunct2, THEN conjunct2, THEN conjunct2, THEN conjunct1]
    by blast
qed

text \<open>
  Claim C9. When the url of the request does not parse, the handler answers 400 with
  \<open>Invalid URL format\<close>, the store is the one it started from (no scan and no child
  record is created) and no scan is launched; a body the schema rejects is answered 400
  in the same way. Whenever the answer is an error the store is unchanged, and whenever
  the store changes or a scan is launched the url has parsed first and the change is that
  of \<open>createScan\<close>.
\<close>

theorem C9_invalid_url_creates_nothing:
  "(parseUrl env url = Inl e \<longrightarrow>
      postScans env st (Some url) = (BadRequest ''Invalid URL format'', st, None))
   \<and> postScans env st None = (BadRequest ''Invalid request data'', st, None)
   \<and> ((\<exists>msg. fst (postScans env st body) = BadRequest msg)
        \<longrightarrow> fst (snd (postScans env st body)) = st \<and> snd (snd (postScans env st body)) = None)
   \<and> (fst (snd (postScans env st body)) \<noteq> st \<or> snd (snd (postScans env st body)) \<noteq> None
        \<longrightarrow> (\<exists>u h. body = Some u \<and> parseUrl env u = Inr h
              \<and> postScans env st body
                 = (OkScan (fst (createScan st u (randomUUID env) (requestTime env))),
                    snd (createScan st u (randomUUID env) (requestTime env)),
                    Some (randomUUID env, u))))"
proof (intro conjI impI)
  assume "parseUrl env url = Inl e"
  then show "postScans env st (Some url) = (BadRequest ''Invalid URL format'', st, None)"
    by (simp add: postScans_def)
next
  show "postScans env st None = (BadRequest ''Invalid request data'', st, None)"
    by (simp add: postScans_def)
next
  assume "\<exists>msg. fst (postScans env st body) = BadRequest msg"
  then show "fst (snd (postScans env st body)) = st" "snd (snd (postScans env st body)) = None"
    by (auto simp: postScans_def Let_def split_def split: option.splits sum.splits)
next
  assume "fst (snd (postScans env st body)) \<noteq> st \<or> snd (snd (postScans env st body)) \<noteq> None"
  then show "\<exists>u h. body = Some u \<and> parseUrl env u = Inr h
              \<and> postScans env st body
                 = (OkScan (fst (createScan st u (randomUUID env) (requestTime env))),
                    snd (createScan st u (randomUUID env) (requestTime env)),
                    Some (randomUUID env, u))"
    by (auto simp: postScans_def Let_def split_def createScan_def split: option.splits sum.splits)
qed

text \<open>
  The theorem at the request \<open>not a url\<close> on an empty store.
\<close>

theorem C9_invalid_url_creates_nothing_witness:
  "postScans exampleEnv emptyStorage (Some ''not a url'')
     = (BadRequest ''Invalid URL format'', emptyStorage, None)"
proof -
  have u: "parseUrl exampleEnv ''not a url'' = Inl ''Invalid URL''"
    by (simp add: exampleEnv_def)
  show ?thesis
    by (rule C9_invalid_url_creates_nothing[of exampleEnv "''not a url''" "''Invalid URL''"
          emptyStorage None, THEN conjunct1, THEN mp, OF u])
qed

end
